theory Spec2Isabelle
  imports Complex_Main "HOL-Library.Char_ord" "HOL-Library.List_Lexorder"
begin

text \<open>
  The data layer of the overtime tracking application: the four entity services
  (SalaryService.ts, OvertimeService.ts with LeaveService and UserService), the reducer
  and the operations of the state store (NanoDataContext.tsx), the local store adapter
  (browserDatabase.ts) and the error classification (errorHandler.ts). A service call is a
  function of the state of the outside world that returns its result, or the error it
  throws, and the new state; logging is left out.
\<close>

section \<open>JavaScript values as the services use them\<close>

text \<open>
  Amounts and hours are JavaScript numbers; they are modelled as exact reals (the
  properties below are structural and do not depend on rounding; NaN is not
  represented). A value that may be \<open>undefined\<close> or \<open>null\<close> is an \<open>option\<close>.
  Timestamps (\<open>new Date().toISOString()\<close>, \<open>created_at\<close>) are opaque to the code;
  they are modelled as instants, ordered chronologically.
\<close>

type_synonym timestamp = nat

definition truthy_num :: "real \<Rightarrow> bool" where
  "truthy_num x = (x \<noteq> 0)"

definition truthy_str :: "string \<Rightarrow> bool" where
  "truthy_str s = (s \<noteq> [])"

text \<open>\<open>x || d\<close> on a possibly missing number or string.\<close>

definition num_or :: "real option \<Rightarrow> real \<Rightarrow> real" where
  "num_or x d = (case x of None \<Rightarrow> d | Some v \<Rightarrow> if truthy_num v then v else d)"

definition str_or :: "string option \<Rightarrow> string \<Rightarrow> string" where
  "str_or x d = (case x of None \<Rightarrow> d | Some v \<Rightarrow> if truthy_str v then v else d)"

text \<open>
  \<open>if (updates.f) updateData.col = updates.f\<close>: the column is written only when the
  supplied value is truthy. The result is the entry of the write set (\<open>None\<close>: no entry).
\<close>

definition guard_num :: "real option \<Rightarrow> real option" where
  "guard_num x = (case x of None \<Rightarrow> None | Some v \<Rightarrow> if truthy_num v then Some v else None)"

definition guard_str :: "string option \<Rightarrow> string option" where
  "guard_str x = (case x of None \<Rightarrow> None | Some v \<Rightarrow> if truthy_str v then Some v else None)"

text \<open>\<open>Number.prototype.toString()\<close> on an integer column value: decimal digits.\<close>

fun nat_toString :: "nat \<Rightarrow> string" where
  "nat_toString n =
     (if n < 10 then [''0123456789'' ! n]
      else nat_toString (n div 10) @ [''0123456789'' ! (n mod 10)])"

declare nat_toString.simps [simp del]

definition toString :: "int \<Rightarrow> string" where
  "toString i = (if i < 0 then CHR ''-'' # nat_toString (nat (- i)) else nat_toString (nat i))"

text \<open>The result of \<open>parseInt\<close>: an integer or NaN. The builtin itself is a parameter
  of the one function that calls it.\<close>

datatype js_int = NaN | Num int

section \<open>The backend interface\<close>

text \<open>A PostgREST error object, and the \<open>{ data, error }\<close> pair every query resolves to.\<close>

record PostgrestError =
  code :: string
  message :: string

record 'd response =
  data :: "'d option"
  error :: "PostgrestError option"

text \<open>What a service function can throw: its own configuration error, the backend's
  error object, or the TypeError of reading a property of \<open>null\<close>.\<close>

datatype js_error = NotConfigured | Backend PostgrestError | TypeError

text \<open>
  The client for one table, as the services use it. Each field is one query chain of the
  source, run against the state \<open>'b\<close> of the outside world:
  \<^item> \<open>select_all\<close>: \<open>.select('*').order('created_at', { ascending: false })\<close>
  \<^item> \<open>select_by_user u\<close>: the same with \<open>.eq('user_id', u)\<close>
  \<^item> \<open>select_by_id i\<close>: \<open>.select('*').eq('id', i).single()\<close>
  \<^item> \<open>insert_single v\<close>: \<open>.insert(v).select().single()\<close>
  \<^item> \<open>update_single v i\<close>: \<open>.update(v).eq('id', i).select().single()\<close>
  \<^item> \<open>delete_eq i\<close>: \<open>.delete().eq('id', i)\<close>
  The module constant \<open>supabase\<close> is \<open>null\<close> when the environment is not configured:
  a service takes an optional client.
\<close>

record ('row, 'ins, 'upd, 'b) table_client =
  select_all :: "'b \<Rightarrow> 'row list response \<times> 'b"
  select_by_user :: "string \<Rightarrow> 'b \<Rightarrow> 'row list response \<times> 'b"
  select_by_id :: "string \<Rightarrow> 'b \<Rightarrow> 'row response \<times> 'b"
  insert_single :: "'ins \<Rightarrow> 'b \<Rightarrow> 'row response \<times> 'b"
  update_single :: "'upd \<Rightarrow> string \<Rightarrow> 'b \<Rightarrow> 'row response \<times> 'b"
  delete_eq :: "string \<Rightarrow> 'b \<Rightarrow> unit response \<times> 'b"

section \<open>Salaries\<close>

text \<open>A row of table \<open>salaries\<close> (database-schema.sql) and the internal \<open>Salary\<close>.\<close>

record salary_row =
  sr_id :: string
  sr_user_id :: string
  sr_base_salary :: real
  sr_overtime_pay :: "real option"
  sr_payment_date :: string
  sr_month :: int
  sr_year :: int
  sr_created_at :: timestamp

record Salary =
  s_id :: string
  s_userId :: string
  s_month :: string
  s_year :: string
  s_grossSalary :: real
  s_netSalary :: real
  s_baseSalary :: real
  s_overtimePay :: real
  s_bonus :: real
  s_besDeduction :: real
  s_paymentDate :: string
  s_created_at :: timestamp

text \<open>The object literal that \<open>getAll\<close>, \<open>getByUserId\<close>, \<open>create\<close> and \<open>update\<close> each build
  from a row.\<close>

definition toSalary :: "salary_row \<Rightarrow> Salary" where
  "toSalary d =
     \<lparr> s_id = sr_id d,
       s_userId = sr_user_id d,
       s_month = toString (sr_month d),
       s_year = toString (sr_year d),
       s_grossSalary = sr_base_salary d + num_or (sr_overtime_pay d) 0,
       s_netSalary = sr_base_salary d + num_or (sr_overtime_pay d) 0,
       s_baseSalary = sr_base_salary d,
       s_overtimePay = num_or (sr_overtime_pay d) 0,
       s_bonus = 0,
       s_besDeduction = 0,
       s_paymentDate = sr_payment_date d,
       s_created_at = sr_created_at d \<rparr>"

text \<open>The argument of \<open>create\<close> (the fields it reads) and the row it inserts.\<close>

record salary_data =
  sd_userId :: string
  sd_baseSalary :: real
  sd_overtimePay :: "real option"
  sd_paymentDate :: string
  sd_month :: string
  sd_year :: string

record salary_insert =
  si_user_id :: string
  si_base_salary :: real
  si_overtime_pay :: real
  si_payment_date :: string
  si_month :: string
  si_year :: string
  si_created_at :: timestamp

text \<open>\<open>Partial<Salary>\<close>, the argument of \<open>update\<close>, and the write set \<open>updateData\<close>.\<close>

record salary_updates =
  su_id :: "string option"
  su_userId :: "string option"
  su_month :: "string option"
  su_year :: "string option"
  su_grossSalary :: "real option"
  su_netSalary :: "real option"
  su_baseSalary :: "real option"
  su_overtimePay :: "real option"
  su_bonus :: "real option"
  su_besDeduction :: "real option"
  su_paymentDate :: "string option"
  su_created_at :: "timestamp option"

record salary_patch =
  sp_updated_at :: timestamp
  sp_base_salary :: "real option"
  sp_overtime_pay :: "real option"
  sp_payment_date :: "string option"
  sp_month :: "js_int option"
  sp_year :: "js_int option"

type_synonym 'b salary_client = "(salary_row, salary_insert, salary_patch, 'b) table_client"

definition SalaryService_getAll ::
  "'b salary_client option \<Rightarrow> 'b \<Rightarrow> (js_error + Salary list) \<times> 'b" where
  "SalaryService_getAll supabase b =
     (case supabase of
        None \<Rightarrow> (Inl NotConfigured, b)
      | Some c \<Rightarrow>
          (case select_all c b of (r, b') \<Rightarrow>
             (case error r of
                Some e \<Rightarrow> (Inl (Backend e), b')
              | None \<Rightarrow>
                  (case data r of
                     None \<Rightarrow> (Inl TypeError, b')
                   | Some rows \<Rightarrow> (Inr (map toSalary rows), b')))))"

definition SalaryService_getByUserId ::
  "'b salary_client option \<Rightarrow> string \<Rightarrow> 'b \<Rightarrow> (js_error + Salary list) \<times> 'b" where
  "SalaryService_getByUserId supabase userId b =
     (case supabase of
        None \<Rightarrow> (Inl NotConfigured, b)
      | Some c \<Rightarrow>
          (case select_by_user c userId b of (r, b') \<Rightarrow>
             (case error r of
                Some e \<Rightarrow> (Inl (Backend e), b')
              | None \<Rightarrow>
                  (case data r of
                     None \<Rightarrow> (Inl TypeError, b')
                   | Some rows \<Rightarrow> (Inr (map toSalary rows), b')))))"

text \<open>The object passed to \<open>insert\<close>.\<close>

definition salary_insertData :: "timestamp \<Rightarrow> salary_data \<Rightarrow> salary_insert" where
  "salary_insertData now salaryData =
     \<lparr> si_user_id = sd_userId salaryData,
       si_base_salary = sd_baseSalary salaryData,
       si_overtime_pay = num_or (sd_overtimePay salaryData) 0,
       si_payment_date = sd_paymentDate salaryData,
       si_month = sd_month salaryData,
       si_year = sd_year salaryData,
       si_created_at = now \<rparr>"

definition SalaryService_create ::
  "'b salary_client option \<Rightarrow> timestamp \<Rightarrow> salary_data \<Rightarrow> 'b \<Rightarrow> (js_error + Salary) \<times> 'b" where
  "SalaryService_create supabase now salaryData b =
     (case supabase of
        None \<Rightarrow> (Inl NotConfigured, b)
      | Some c \<Rightarrow>
          (case insert_single c (salary_insertData now salaryData) b of (r, b') \<Rightarrow>
             (case error r of
                Some e \<Rightarrow> (Inl (Backend e), b')
              | None \<Rightarrow>
                  (case data r of
                     None \<Rightarrow> (Inl TypeError, b')
                   | Some d \<Rightarrow> (Inr (toSalary d), b')))))"

definition salary_updateData :: "(string \<Rightarrow> js_int) \<Rightarrow> timestamp \<Rightarrow> salary_updates \<Rightarrow> salary_patch" where
  "salary_updateData parseInt now updates =
     \<lparr> sp_updated_at = now,
       sp_base_salary = guard_num (su_baseSalary updates),
       sp_overtime_pay = guard_num (su_overtimePay updates),
       sp_payment_date = guard_str (su_paymentDate updates),
       sp_month = map_option parseInt (guard_str (su_month updates)),
       sp_year = map_option parseInt (guard_str (su_year updates)) \<rparr>"

definition SalaryService_update ::
  "'b salary_client option \<Rightarrow> (string \<Rightarrow> js_int) \<Rightarrow> timestamp \<Rightarrow> string \<Rightarrow> salary_updates \<Rightarrow> 'b
     \<Rightarrow> (js_error + Salary) \<times> 'b" where
  "SalaryService_update supabase parseInt now i updates b =
     (case supabase of
        None \<Rightarrow> (Inl NotConfigured, b)
      | Some c \<Rightarrow>
          (case update_single c (salary_updateData parseInt now updates) i b of (r, b') \<Rightarrow>
             (case error r of
                Some e \<Rightarrow> (Inl (Backend e), b')
              | None \<Rightarrow>
                  (case data r of
                     None \<Rightarrow> (Inl TypeError, b')
                   | Some d \<Rightarrow> (Inr (toSalary d), b')))))"

definition SalaryService_delete ::
  "'b salary_client option \<Rightarrow> string \<Rightarrow> 'b \<Rightarrow> (js_error + unit) \<times> 'b" where
  "SalaryService_delete supabase i b =
     (case supabase of
        None \<Rightarrow> (Inl NotConfigured, b)
      | Some c \<Rightarrow>
          (case delete_eq c i b of (r, b') \<Rightarrow>
             (case error r of
                Some e \<Rightarrow> (Inl (Backend e), b')
              | None \<Rightarrow> (Inr (), b'))))"

text \<open>The aliases at the end of the class.\<close>

definition SalaryService_getAllSalaries ::
  "'b salary_client option \<Rightarrow> 'b \<Rightarrow> (js_error + Salary list) \<times> 'b" where
  "SalaryService_getAllSalaries supabase b = SalaryService_getAll supabase b"

definition SalaryService_createSalary ::
  "'b salary_client option \<Rightarrow> timestamp \<Rightarrow> salary_data \<Rightarrow> 'b \<Rightarrow> (js_error + Salary) \<times> 'b" where
  "SalaryService_createSalary supabase now salaryData b = SalaryService_create supabase now salaryData b"

definition SalaryService_updateSalary ::
  "'b salary_client option \<Rightarrow> (string \<Rightarrow> js_int) \<Rightarrow> timestamp \<Rightarrow> string \<Rightarrow> salary_updates \<Rightarrow> 'b
     \<Rightarrow> (js_error + Salary) \<times> 'b" where
  "SalaryService_updateSalary supabase parseInt now i updates b =
     SalaryService_update supabase parseInt now i updates b"

definition SalaryService_deleteSalary ::
  "'b salary_client option \<Rightarrow> string \<Rightarrow> 'b \<Rightarrow> (js_error + unit) \<times> 'b" where
  "SalaryService_deleteSalary supabase i b = SalaryService_delete supabase i b"

section \<open>Overtimes\<close>

text \<open>The three status strings (the column's CHECK constraint, and the type of the
  services' \<open>status\<close> arguments).\<close>

datatype status = Pending | Approved | Rejected

fun status_str :: "status \<Rightarrow> string" where
  "status_str Pending = ''pending''"
| "status_str Approved = ''approved''"
| "status_str Rejected = ''rejected''"

text \<open>\<open>if (updates.status) ...\<close> and \<open>status || 'pending'\<close>.\<close>

definition guard_status :: "status option \<Rightarrow> status option" where
  "guard_status x =
     (case x of None \<Rightarrow> None | Some s \<Rightarrow> if truthy_str (status_str s) then Some s else None)"

definition or_pending :: "status option \<Rightarrow> status" where
  "or_pending x =
     (case x of None \<Rightarrow> Pending | Some s \<Rightarrow> if truthy_str (status_str s) then s else Pending)"

record overtime_row =
  or_id :: string
  or_user_id :: string
  or_date :: string
  or_hours :: real
  or_reason :: "string option"
  or_status :: status
  or_created_at :: timestamp

record Overtime =
  o_id :: string
  o_userId :: string
  o_date :: string
  o_hours :: real
  o_description :: string
  o_status :: status
  o_hourlyRate :: real
  o_totalPayment :: real
  o_created_at :: timestamp

definition toOvertime :: "overtime_row \<Rightarrow> Overtime" where
  "toOvertime d =
     \<lparr> o_id = or_id d,
       o_userId = or_user_id d,
       o_date = or_date d,
       o_hours = or_hours d,
       o_description = str_or (or_reason d) [],
       o_status = or_status d,
       o_hourlyRate = 0,
       o_totalPayment = 0,
       o_created_at = or_created_at d \<rparr>"

record overtime_data =
  od_userId :: string
  od_date :: string
  od_hours :: real
  od_description :: "string option"
  od_status :: "status option"

record overtime_insert =
  oi_user_id :: string
  oi_date :: string
  oi_hours :: real
  oi_reason :: string
  oi_status :: status
  oi_created_at :: timestamp

record overtime_updates =
  ou_id :: "string option"
  ou_userId :: "string option"
  ou_date :: "string option"
  ou_hours :: "real option"
  ou_description :: "string option"
  ou_status :: "status option"
  ou_hourlyRate :: "real option"
  ou_totalPayment :: "real option"
  ou_created_at :: "timestamp option"

record overtime_patch =
  op_date :: "string option"
  op_hours :: "real option"
  op_reason :: "string option"
  op_status :: "status option"

type_synonym 'b overtime_client = "(overtime_row, overtime_insert, overtime_patch, 'b) table_client"

definition OvertimeService_getAll ::
  "'b overtime_client option \<Rightarrow> 'b \<Rightarrow> (js_error + Overtime list) \<times> 'b" where
  "OvertimeService_getAll supabase b =
     (case supabase of
        None \<Rightarrow> (Inl NotConfigured, b)
      | Some c \<Rightarrow>
          (case select_all c b of (r, b') \<Rightarrow>
             (case error r of
                Some e \<Rightarrow> (Inl (Backend e), b')
              | None \<Rightarrow>
                  (case data r of
                     None \<Rightarrow> (Inl TypeError, b')
                   | Some rows \<Rightarrow> (Inr (map toOvertime rows), b')))))"

definition OvertimeService_getByUserId ::
  "'b overtime_client option \<Rightarrow> string \<Rightarrow> 'b \<Rightarrow> (js_error + Overtime list) \<times> 'b" where
  "OvertimeService_getByUserId supabase userId b =
     (case supabase of
        None \<Rightarrow> (Inl NotConfigured, b)
      | Some c \<Rightarrow>
          (case select_by_user c userId b of (r, b') \<Rightarrow>
             (case error r of
                Some e \<Rightarrow> (Inl (Backend e), b')
              | None \<Rightarrow>
                  (case data r of
                     None \<Rightarrow> (Inl TypeError, b')
                   | Some rows \<Rightarrow> (Inr (map toOvertime rows), b')))))"

definition overtime_insertData :: "timestamp \<Rightarrow> overtime_data \<Rightarrow> overtime_insert" where
  "overtime_insertData now overtimeData =
     \<lparr> oi_user_id = od_userId overtimeData,
       oi_date = od_date overtimeData,
       oi_hours = od_hours overtimeData,
       oi_reason = str_or (od_description overtimeData) [],
       oi_status = or_pending (od_status overtimeData),
       oi_created_at = now \<rparr>"

definition OvertimeService_create ::
  "'b overtime_client option \<Rightarrow> timestamp \<Rightarrow> overtime_data \<Rightarrow> 'b \<Rightarrow> (js_error + Overtime) \<times> 'b" where
  "OvertimeService_create supabase now overtimeData b =
     (case supabase of
        None \<Rightarrow> (Inl NotConfigured, b)
      | Some c \<Rightarrow>
          (case insert_single c (overtime_insertData now overtimeData) b of (r, b') \<Rightarrow>
             (case error r of
                Some e \<Rightarrow> (Inl (Backend e), b')
              | None \<Rightarrow>
                  (case data r of
                     None \<Rightarrow> (Inl TypeError, b')
                   | Some d \<Rightarrow> (Inr (toOvertime d), b')))))"

text \<open>The object literal \<open>{ status }\<close> passed to \<open>update\<close>.\<close>

definition overtime_statusData :: "status \<Rightarrow> overtime_patch" where
  "overtime_statusData st =
     \<lparr> op_date = None, op_hours = None, op_reason = None, op_status = Some st \<rparr>"

definition OvertimeService_updateStatus ::
  "'b overtime_client option \<Rightarrow> string \<Rightarrow> status \<Rightarrow> 'b \<Rightarrow> (js_error + Overtime) \<times> 'b" where
  "OvertimeService_updateStatus supabase i st b =
     (case supabase of
        None \<Rightarrow> (Inl NotConfigured, b)
      | Some c \<Rightarrow>
          (case update_single c (overtime_statusData st) i b of (r, b') \<Rightarrow>
             (case error r of
                Some e \<Rightarrow> (Inl (Backend e), b')
              | None \<Rightarrow>
                  (case data r of
                     None \<Rightarrow> (Inl TypeError, b')
                   | Some d \<Rightarrow> (Inr (toOvertime d), b')))))"

definition overtime_updateData :: "overtime_updates \<Rightarrow> overtime_patch" where
  "overtime_updateData updates =
     \<lparr> op_date = guard_str (ou_date updates),
       op_hours = guard_num (ou_hours updates),
       op_reason = guard_str (ou_description updates),
       op_status = guard_status (ou_status updates) \<rparr>"

definition OvertimeService_update ::
  "'b overtime_client option \<Rightarrow> string \<Rightarrow> overtime_updates \<Rightarrow> 'b \<Rightarrow> (js_error + Overtime) \<times> 'b" where
  "OvertimeService_update supabase i updates b =
     (case supabase of
        None \<Rightarrow> (Inl NotConfigured, b)
      | Some c \<Rightarrow>
          (case update_single c (overtime_updateData updates) i b of (r, b') \<Rightarrow>
             (case error r of
                Some e \<Rightarrow> (Inl (Backend e), b')
              | None \<Rightarrow>
                  (case data r of
                     None \<Rightarrow> (Inl TypeError, b')
                   | Some d \<Rightarrow> (Inr (toOvertime d), b')))))"

definition OvertimeService_delete ::
  "'b overtime_client option \<Rightarrow> string \<Rightarrow> 'b \<Rightarrow> (js_error + unit) \<times> 'b" where
  "OvertimeService_delete supabase i b =
     (case supabase of
        None \<Rightarrow> (Inl NotConfigured, b)
      | Some c \<Rightarrow>
          (case delete_eq c i b of (r, b') \<Rightarrow>
             (case error r of
                Some e \<Rightarrow> (Inl (Backend e), b')
              | None \<Rightarrow> (Inr (), b'))))"

definition OvertimeService_getAllOvertimes ::
  "'b overtime_client option \<Rightarrow> 'b \<Rightarrow> (js_error + Overtime list) \<times> 'b" where
  "OvertimeService_getAllOvertimes supabase b = OvertimeService_getAll supabase b"

definition OvertimeService_createOvertime ::
  "'b overtime_client option \<Rightarrow> timestamp \<Rightarrow> overtime_data \<Rightarrow> 'b \<Rightarrow> (js_error + Overtime) \<times> 'b" where
  "OvertimeService_createOvertime supabase now overtimeData b =
     OvertimeService_create supabase now overtimeData b"

definition OvertimeService_updateOvertime ::
  "'b overtime_client option \<Rightarrow> string \<Rightarrow> overtime_updates \<Rightarrow> 'b \<Rightarrow> (js_error + Overtime) \<times> 'b" where
  "OvertimeService_updateOvertime supabase i updates b = OvertimeService_update supabase i updates b"

definition OvertimeService_deleteOvertime ::
  "'b overtime_client option \<Rightarrow> string \<Rightarrow> 'b \<Rightarrow> (js_error + unit) \<times> 'b" where
  "OvertimeService_deleteOvertime supabase i b = OvertimeService_delete supabase i b"

section \<open>Leaves\<close>

record leave_row =
  lr_id :: string
  lr_user_id :: string
  lr_start_date :: string
  lr_end_date :: string
  lr_type :: string
  lr_status :: status
  lr_created_at :: timestamp

record Leave =
  l_id :: string
  l_userId :: string
  l_startDate :: string
  l_endDate :: string
  l_type :: string
  l_status :: status
  l_reason :: string
  l_leaveType :: string
  l_daysUsed :: real
  l_created_at :: timestamp

definition toLeave :: "leave_row \<Rightarrow> Leave" where
  "toLeave d =
     \<lparr> l_id = lr_id d,
       l_userId = lr_user_id d,
       l_startDate = lr_start_date d,
       l_endDate = lr_end_date d,
       l_type = lr_type d,
       l_status = lr_status d,
       l_reason = [],
       l_leaveType = lr_type d,
       l_daysUsed = 0,
       l_created_at = lr_created_at d \<rparr>"

record leave_data =
  ld_userId :: string
  ld_startDate :: string
  ld_endDate :: string
  ld_type :: string
  ld_status :: "status option"

record leave_insert =
  li_user_id :: string
  li_start_date :: string
  li_end_date :: string
  li_type :: string
  li_status :: status
  li_created_at :: timestamp

record leave_updates =
  lu_id :: "string option"
  lu_userId :: "string option"
  lu_startDate :: "string option"
  lu_endDate :: "string option"
  lu_type :: "string option"
  lu_status :: "status option"
  lu_reason :: "string option"
  lu_leaveType :: "string option"
  lu_daysUsed :: "real option"
  lu_created_at :: "timestamp option"

record leave_patch =
  lp_start_date :: "string option"
  lp_end_date :: "string option"
  lp_type :: "string option"
  lp_status :: "status option"

type_synonym 'b leave_client = "(leave_row, leave_insert, leave_patch, 'b) table_client"

definition LeaveService_getAll ::
  "'b leave_client option \<Rightarrow> 'b \<Rightarrow> (js_error + Leave list) \<times> 'b" where
  "LeaveService_getAll supabase b =
     (case supabase of
        None \<Rightarrow> (Inl NotConfigured, b)
      | Some c \<Rightarrow>
          (case select_all c b of (r, b') \<Rightarrow>
             (case error r of
                Some e \<Rightarrow> (Inl (Backend e), b')
              | None \<Rightarrow>
                  (case data r of
                     None \<Rightarrow> (Inl TypeError, b')
                   | Some rows \<Rightarrow> (Inr (map toLeave rows), b')))))"

definition LeaveService_getByUserId ::
  "'b leave_client option \<Rightarrow> string \<Rightarrow> 'b \<Rightarrow> (js_error + Leave list) \<times> 'b" where
  "LeaveService_getByUserId supabase userId b =
     (case supabase of
        None \<Rightarrow> (Inl NotConfigured, b)
      | Some c \<Rightarrow>
          (case select_by_user c userId b of (r, b') \<Rightarrow>
             (case error r of
                Some e \<Rightarrow> (Inl (Backend e), b')
              | None \<Rightarrow>
                  (case data r of
                     None \<Rightarrow> (Inl TypeError, b')
                   | Some rows \<Rightarrow> (Inr (map toLeave rows), b')))))"

definition leave_insertData :: "timestamp \<Rightarrow> leave_data \<Rightarrow> leave_insert" where
  "leave_insertData now leaveData =
     \<lparr> li_user_id = ld_userId leaveData,
       li_start_date = ld_startDate leaveData,
       li_end_date = ld_endDate leaveData,
       li_type = ld_type leaveData,
       li_status = or_pending (ld_status leaveData),
       li_created_at = now \<rparr>"

definition LeaveService_create ::
  "'b leave_client option \<Rightarrow> timestamp \<Rightarrow> leave_data \<Rightarrow> 'b \<Rightarrow> (js_error + Leave) \<times> 'b" where
  "LeaveService_create supabase now leaveData b =
     (case supabase of
        None \<Rightarrow> (Inl NotConfigured, b)
      | Some c \<Rightarrow>
          (case insert_single c (leave_insertData now leaveData) b of (r, b') \<Rightarrow>
             (case error r of
                Some e \<Rightarrow> (Inl (Backend e), b')
              | None \<Rightarrow>
                  (case data r of
                     None \<Rightarrow> (Inl TypeError, b')
                   | Some d \<Rightarrow> (Inr (toLeave d), b')))))"

definition leave_statusData :: "status \<Rightarrow> leave_patch" where
  "leave_statusData st =
     \<lparr> lp_start_date = None, lp_end_date = None, lp_type = None, lp_status = Some st \<rparr>"

definition LeaveService_updateStatus ::
  "'b leave_client option \<Rightarrow> string \<Rightarrow> status \<Rightarrow> 'b \<Rightarrow> (js_error + Leave) \<times> 'b" where
  "LeaveService_updateStatus supabase i st b =
     (case supabase of
        None \<Rightarrow> (Inl NotConfigured, b)
      | Some c \<Rightarrow>
          (case update_single c (leave_statusData st) i b of (r, b') \<Rightarrow>
             (case error r of
                Some e \<Rightarrow> (Inl (Backend e), b')
              | None \<Rightarrow>
                  (case data r of
                     None \<Rightarrow> (Inl TypeError, b')
                   | Some d \<Rightarrow> (Inr (toLeave d), b')))))"

definition leave_updateData :: "leave_updates \<Rightarrow> leave_patch" where
  "leave_updateData updates =
     \<lparr> lp_start_date = guard_str (lu_startDate updates),
       lp_end_date = guard_str (lu_endDate updates),
       lp_type = guard_str (lu_type updates),
       lp_status = guard_status (lu_status updates) \<rparr>"

definition LeaveService_update ::
  "'b leave_client option \<Rightarrow> string \<Rightarrow> leave_updates \<Rightarrow> 'b \<Rightarrow> (js_error + Leave) \<times> 'b" where
  "LeaveService_update supabase i updates b =
     (case supabase of
        None \<Rightarrow> (Inl NotConfigured, b)
      | Some c \<Rightarrow>
          (case update_single c (leave_updateData updates) i b of (r, b') \<Rightarrow>
             (case error r of
                Some e \<Rightarrow> (Inl (Backend e), b')
              | None \<Rightarrow>
                  (case data r of
                     None \<Rightarrow> (Inl TypeError, b')
                   | Some d \<Rightarrow> (Inr (toLeave d), b')))))"

definition LeaveService_delete ::
  "'b leave_client option \<Rightarrow> string \<Rightarrow> 'b \<Rightarrow> (js_error + unit) \<times> 'b" where
  "LeaveService_delete supabase i b =
     (case supabase of
        None \<Rightarrow> (Inl NotConfigured, b)
      | Some c \<Rightarrow>
          (case delete_eq c i b of (r, b') \<Rightarrow>
             (case error r of
                Some e \<Rightarrow> (Inl (Backend e), b')
              | None \<Rightarrow> (Inr (), b'))))"

definition LeaveService_getAllLeaves ::
  "'b leave_client option \<Rightarrow> 'b \<Rightarrow> (js_error + Leave list) \<times> 'b" where
  "LeaveService_getAllLeaves supabase b = LeaveService_getAll supabase b"

definition LeaveService_createLeave ::
  "'b leave_client option \<Rightarrow> timestamp \<Rightarrow> leave_data \<Rightarrow> 'b \<Rightarrow> (js_error + Leave) \<times> 'b" where
  "LeaveService_createLeave supabase now leaveData b = LeaveService_create supabase now leaveData b"

definition LeaveService_updateLeave ::
  "'b leave_client option \<Rightarrow> string \<Rightarrow> leave_updates \<Rightarrow> 'b \<Rightarrow> (js_error + Leave) \<times> 'b" where
  "LeaveService_updateLeave supabase i updates b = LeaveService_update supabase i updates b"

definition LeaveService_deleteLeave ::
  "'b leave_client option \<Rightarrow> string \<Rightarrow> 'b \<Rightarrow> (js_error + unit) \<times> 'b" where
  "LeaveService_deleteLeave supabase i b = LeaveService_delete supabase i b"

section \<open>Users\<close>

record user_row =
  ur_id :: string
  ur_email :: string
  ur_name :: string
  ur_employee_type :: "string option"
  ur_start_date :: "string option"
  ur_created_at :: timestamp
  ur_updated_at :: timestamp

record User =
  u_id :: string
  u_email :: string
  u_name :: string
  u_employeeType :: "string option"
  u_startDate :: "string option"
  u_createdAt :: timestamp
  u_updatedAt :: timestamp

definition toUser :: "user_row \<Rightarrow> User" where
  "toUser d =
     \<lparr> u_id = ur_id d,
       u_email = ur_email d,
       u_name = ur_name d,
       u_employeeType = ur_employee_type d,
       u_startDate = ur_start_date d,
       u_createdAt = ur_created_at d,
       u_updatedAt = ur_updated_at d \<rparr>"

record user_data =
  ud_email :: string
  ud_name :: string
  ud_employeeType :: string
  ud_startDate :: string

record user_insert =
  ui_email :: string
  ui_name :: string
  ui_employee_type :: string
  ui_start_date :: string
  ui_created_at :: timestamp
  ui_updated_at :: timestamp

record user_updates =
  uu_id :: "string option"
  uu_email :: "string option"
  uu_name :: "string option"
  uu_employeeType :: "string option"
  uu_startDate :: "string option"
  uu_createdAt :: "timestamp option"
  uu_updatedAt :: "timestamp option"

record user_patch =
  up_updated_at :: timestamp
  up_name :: "string option"
  up_email :: "string option"
  up_employee_type :: "string option"
  up_start_date :: "string option"

type_synonym 'b user_client = "(user_row, user_insert, user_patch, 'b) table_client"

definition user_insertData :: "timestamp \<Rightarrow> user_data \<Rightarrow> user_insert" where
  "user_insertData now userData =
     \<lparr> ui_email = ud_email userData,
       ui_name = ud_name userData,
       ui_employee_type = ud_employeeType userData,
       ui_start_date = ud_startDate userData,
       ui_created_at = now,
       ui_updated_at = now \<rparr>"

definition UserService_create ::
  "'b user_client option \<Rightarrow> timestamp \<Rightarrow> user_data \<Rightarrow> 'b \<Rightarrow> (js_error + User) \<times> 'b" where
  "UserService_create supabase now userData b =
     (case supabase of
        None \<Rightarrow> (Inl NotConfigured, b)
      | Some c \<Rightarrow>
          (case insert_single c (user_insertData now userData) b of (r, b') \<Rightarrow>
             (case error r of
                Some e \<Rightarrow> (Inl (Backend e), b')
              | None \<Rightarrow>
                  (case data r of
                     None \<Rightarrow> (Inl TypeError, b')
                   | Some d \<Rightarrow> (Inr (toUser d), b')))))"

text \<open>\<open>getById\<close> answers a backend error with \<open>null\<close>.\<close>

definition UserService_getById ::
  "'b user_client option \<Rightarrow> string \<Rightarrow> 'b \<Rightarrow> (js_error + User option) \<times> 'b" where
  "UserService_getById supabase i b =
     (case supabase of
        None \<Rightarrow> (Inl NotConfigured, b)
      | Some c \<Rightarrow>
          (case select_by_id c i b of (r, b') \<Rightarrow>
             (case error r of
                Some e \<Rightarrow> (Inr None, b')
              | None \<Rightarrow>
                  (case data r of
                     None \<Rightarrow> (Inl TypeError, b')
                   | Some d \<Rightarrow> (Inr (Some (toUser d)), b')))))"

definition UserService_getAll ::
  "'b user_client option \<Rightarrow> 'b \<Rightarrow> (js_error + User list) \<times> 'b" where
  "UserService_getAll supabase b =
     (case supabase of
        None \<Rightarrow> (Inl NotConfigured, b)
      | Some c \<Rightarrow>
          (case select_all c b of (r, b') \<Rightarrow>
             (case error r of
                Some e \<Rightarrow> (Inl (Backend e), b')
              | None \<Rightarrow>
                  (case data r of
                     None \<Rightarrow> (Inl TypeError, b')
                   | Some rows \<Rightarrow> (Inr (map toUser rows), b')))))"

definition user_updateData :: "timestamp \<Rightarrow> user_updates \<Rightarrow> user_patch" where
  "user_updateData now updates =
     \<lparr> up_updated_at = now,
       up_name = guard_str (uu_name updates),
       up_email = guard_str (uu_email updates),
       up_employee_type = guard_str (uu_employeeType updates),
       up_start_date = guard_str (uu_startDate updates) \<rparr>"

definition UserService_update ::
  "'b user_client option \<Rightarrow> timestamp \<Rightarrow> string \<Rightarrow> user_updates \<Rightarrow> 'b \<Rightarrow> (js_error + User) \<times> 'b" where
  "UserService_update supabase now i updates b =
     (case supabase of
        None \<Rightarrow> (Inl NotConfigured, b)
      | Some c \<Rightarrow>
          (case update_single c (user_updateData now updates) i b of (r, b') \<Rightarrow>
             (case error r of
                Some e \<Rightarrow> (Inl (Backend e), b')
              | None \<Rightarrow>
                  (case data r of
                     None \<Rightarrow> (Inl TypeError, b')
                   | Some d \<Rightarrow> (Inr (toUser d), b')))))"

definition UserService_delete ::
  "'b user_client option \<Rightarrow> string \<Rightarrow> 'b \<Rightarrow> (js_error + unit) \<times> 'b" where
  "UserService_delete supabase i b =
     (case supabase of
        None \<Rightarrow> (Inl NotConfigured, b)
      | Some c \<Rightarrow>
          (case delete_eq c i b of (r, b') \<Rightarrow>
             (case error r of
                Some e \<Rightarrow> (Inl (Backend e), b')
              | None \<Rightarrow> (Inr (), b'))))"

section \<open>The state store (NanoDataContext)\<close>

record loading_flags =
  ls_users :: bool
  ls_salaries :: bool
  ls_overtimes :: bool
  ls_leaves :: bool

record error_fields =
  er_users :: "string option"
  er_salaries :: "string option"
  er_overtimes :: "string option"
  er_leaves :: "string option"

record NanoDataState =
  users :: "User list"
  salaries :: "Salary list"
  overtimes :: "Overtime list"
  leaves :: "Leave list"
  loadingStates :: loading_flags
  errors :: error_fields

text \<open>The keys of \<open>loadingStates\<close> and \<open>errors\<close>, and the actions.\<close>

datatype entity = EUsers | ESalaries | EOvertimes | ELeaves

datatype action =
    SET_LOADING entity bool
  | SET_ERROR entity "string option"
  | SET_USERS "User list"
  | SET_SALARIES "Salary list"
  | SET_OVERTIMES "Overtime list"
  | SET_LEAVES "Leave list"
  | ADD_USER User
  | UPDATE_USER User
  | REMOVE_USER string
  | ADD_SALARY Salary
  | UPDATE_SALARY Salary
  | REMOVE_SALARY string
  | ADD_OVERTIME Overtime
  | UPDATE_OVERTIME Overtime
  | REMOVE_OVERTIME string
  | ADD_LEAVE Leave
  | UPDATE_LEAVE Leave
  | REMOVE_LEAVE string
  | CLEAR_ERRORS

definition initialState :: NanoDataState where
  "initialState =
     \<lparr> users = [], salaries = [], overtimes = [], leaves = [],
       loadingStates = \<lparr> ls_users = False, ls_salaries = False, ls_overtimes = False, ls_leaves = False \<rparr>,
       errors = \<lparr> er_users = None, er_salaries = None, er_overtimes = None, er_leaves = None \<rparr> \<rparr>"

text \<open>The computed keys \<open>[action.entity]: action.loading\<close> and \<open>[action.entity]: action.error\<close>.\<close>

fun set_loading :: "entity \<Rightarrow> bool \<Rightarrow> loading_flags \<Rightarrow> loading_flags" where
  "set_loading EUsers v l = l\<lparr>ls_users := v\<rparr>"
| "set_loading ESalaries v l = l\<lparr>ls_salaries := v\<rparr>"
| "set_loading EOvertimes v l = l\<lparr>ls_overtimes := v\<rparr>"
| "set_loading ELeaves v l = l\<lparr>ls_leaves := v\<rparr>"

fun set_error :: "entity \<Rightarrow> string option \<Rightarrow> error_fields \<Rightarrow> error_fields" where
  "set_error EUsers v e = e\<lparr>er_users := v\<rparr>"
| "set_error ESalaries v e = e\<lparr>er_salaries := v\<rparr>"
| "set_error EOvertimes v e = e\<lparr>er_overtimes := v\<rparr>"
| "set_error ELeaves v e = e\<lparr>er_leaves := v\<rparr>"

fun loading_of :: "entity \<Rightarrow> loading_flags \<Rightarrow> bool" where
  "loading_of EUsers l = ls_users l"
| "loading_of ESalaries l = ls_salaries l"
| "loading_of EOvertimes l = ls_overtimes l"
| "loading_of ELeaves l = ls_leaves l"

fun error_of :: "entity \<Rightarrow> error_fields \<Rightarrow> string option" where
  "error_of EUsers e = er_users e"
| "error_of ESalaries e = er_salaries e"
| "error_of EOvertimes e = er_overtimes e"
| "error_of ELeaves e = er_leaves e"

fun nanoDataReducer :: "NanoDataState \<Rightarrow> action \<Rightarrow> NanoDataState" where
  "nanoDataReducer state (SET_LOADING e loading) =
     state\<lparr>loadingStates := set_loading e loading (loadingStates state)\<rparr>"
| "nanoDataReducer state (SET_ERROR e err) =
     state\<lparr>errors := set_error e err (errors state)\<rparr>"
| "nanoDataReducer state (SET_USERS us) = state\<lparr>users := us\<rparr>"
| "nanoDataReducer state (SET_SALARIES ss) = state\<lparr>salaries := ss\<rparr>"
| "nanoDataReducer state (SET_OVERTIMES os) = state\<lparr>overtimes := os\<rparr>"
| "nanoDataReducer state (SET_LEAVES ls) = state\<lparr>leaves := ls\<rparr>"
| "nanoDataReducer state (ADD_USER u) = state\<lparr>users := users state @ [u]\<rparr>"
| "nanoDataReducer state (UPDATE_USER u) =
     state\<lparr>users := map (\<lambda>user. if u_id user = u_id u then u else user) (users state)\<rparr>"
| "nanoDataReducer state (REMOVE_USER userId) =
     state\<lparr>users := filter (\<lambda>user. u_id user \<noteq> userId) (users state)\<rparr>"
| "nanoDataReducer state (ADD_SALARY s) = state\<lparr>salaries := salaries state @ [s]\<rparr>"
| "nanoDataReducer state (UPDATE_SALARY s) =
     state\<lparr>salaries := map (\<lambda>salary. if s_id salary = s_id s then s else salary) (salaries state)\<rparr>"
| "nanoDataReducer state (REMOVE_SALARY salaryId) =
     state\<lparr>salaries := filter (\<lambda>salary. s_id salary \<noteq> salaryId) (salaries state)\<rparr>"
| "nanoDataReducer state (ADD_OVERTIME ov) = state\<lparr>overtimes := overtimes state @ [ov]\<rparr>"
| "nanoDataReducer state (UPDATE_OVERTIME ov) =
     state\<lparr>overtimes := map (\<lambda>overtime. if o_id overtime = o_id ov then ov else overtime) (overtimes state)\<rparr>"
| "nanoDataReducer state (REMOVE_OVERTIME overtimeId) =
     state\<lparr>overtimes := filter (\<lambda>overtime. o_id overtime \<noteq> overtimeId) (overtimes state)\<rparr>"
| "nanoDataReducer state (ADD_LEAVE lv) = state\<lparr>leaves := leaves state @ [lv]\<rparr>"
| "nanoDataReducer state (UPDATE_LEAVE lv) =
     state\<lparr>leaves := map (\<lambda>leave. if l_id leave = l_id lv then lv else leave) (leaves state)\<rparr>"
| "nanoDataReducer state (REMOVE_LEAVE leaveId) =
     state\<lparr>leaves := filter (\<lambda>leave. l_id leave \<noteq> leaveId) (leaves state)\<rparr>"
| "nanoDataReducer state CLEAR_ERRORS =
     state\<lparr>errors := \<lparr> er_users = None, er_salaries = None, er_overtimes = None, er_leaves = None \<rparr>\<rparr>"

text \<open>The state after the actions an operation dispatched, in the order of its
  \<open>dispatch\<close> calls.\<close>

definition dispatchAll :: "NanoDataState \<Rightarrow> action list \<Rightarrow> NanoDataState" where
  "dispatchAll state acts = foldl nanoDataReducer state acts"

text \<open>The error messages, as UTF-8 bytes.\<close>

definition msg_refresh :: string where
  "msg_refresh = ''Veri y'' @ [CHR 0xC3, CHR 0xBC] @ ''klenemedi''"

definition str_Kullanici :: string where
  "str_Kullanici = ''Kullan'' @ [CHR 0xC4, CHR 0xB1] @ ''c'' @ [CHR 0xC4, CHR 0xB1]"

definition str_Maas_kaydi :: string where
  "str_Maas_kaydi = ''Maa'' @ [CHR 0xC5, CHR 0x9F] @ '' kayd'' @ [CHR 0xC4, CHR 0xB1]"

definition str_Mesai_kaydi :: string where
  "str_Mesai_kaydi = ''Mesai kayd'' @ [CHR 0xC4, CHR 0xB1]"

definition str_Izin_kaydi :: string where
  "str_Izin_kaydi = [CHR 0xC4, CHR 0xB0] @ ''zin kayd'' @ [CHR 0xC4, CHR 0xB1]"

definition str_olusturulamadi :: string where
  "str_olusturulamadi = '' olu'' @ [CHR 0xC5, CHR 0x9F] @ ''turulamad'' @ [CHR 0xC4, CHR 0xB1]"

definition str_guncellenemedi :: string where
  "str_guncellenemedi = '' g'' @ [CHR 0xC3, CHR 0xBC] @ ''ncellenemedi''"

definition str_silinemedi :: string where
  "str_silinemedi = '' silinemedi''"

text \<open>
  The services the store imports. The salary, overtime and leave services are the ones
  above, each with its client; \<open>parseInt\<close> is the builtin that \<open>SalaryService.update\<close>
  calls. The store's calls \<open>userService.getAllUsers\<close>, \<open>createUser\<close>, \<open>updateUser\<close> and
  \<open>deleteUser\<close> are not awaited: the record has a field for each, a synchronous function
  that returns or throws, and \<open>repository_services\<close> below fills the four fields with
  what the exported \<open>userService\<close> does.
\<close>

record 'b services =
  userService_getAllUsers :: "'b \<Rightarrow> (js_error + User list) \<times> 'b"
  userService_createUser :: "user_data \<Rightarrow> 'b \<Rightarrow> (js_error + User) \<times> 'b"
  userService_updateUser :: "string \<Rightarrow> user_updates \<Rightarrow> 'b \<Rightarrow> (js_error + User option) \<times> 'b"
  userService_deleteUser :: "string \<Rightarrow> 'b \<Rightarrow> (js_error + bool) \<times> 'b"
  salaries_client :: "'b salary_client option"
  overtimes_client :: "'b overtime_client option"
  leaves_client :: "'b leave_client option"
  parseInt :: "string \<Rightarrow> js_int"

text \<open>
  The exported \<open>userService\<close> is an instance of \<open>UserService\<close>, which declares \<open>create\<close>,
  \<open>getById\<close>, \<open>getAll\<close>, \<open>update\<close>, \<open>delete\<close> and \<open>createDemoUsers\<close> and no other method.
  \<open>userService.getAllUsers\<close> and the three other names the store calls are therefore
  \<open>undefined\<close>, and calling them throws a TypeError before any query is sent. The clients
  of the other three services and \<open>parseInt\<close> belong to the environment.
\<close>

definition repository_services ::
  "'b salary_client option \<Rightarrow> 'b overtime_client option \<Rightarrow> 'b leave_client option
     \<Rightarrow> (string \<Rightarrow> js_int) \<Rightarrow> 'b services" where
  "repository_services sc oc lc pI =
     \<lparr> userService_getAllUsers = (\<lambda>b. (Inl TypeError, b)),
       userService_createUser = (\<lambda>userData b. (Inl TypeError, b)),
       userService_updateUser = (\<lambda>i userData b. (Inl TypeError, b)),
       userService_deleteUser = (\<lambda>i b. (Inl TypeError, b)),
       salaries_client = sc, overtimes_client = oc, leaves_client = lc, parseInt = pI \<rparr>"

text \<open>
  Every operation returns what it returns or throws, the actions it dispatched, and the
  outside world after its service calls. \<open>refreshData\<close> catches every error and
  returns nothing.
\<close>

definition refreshData :: "'b services \<Rightarrow> 'b \<Rightarrow> action list \<times> 'b" where
  "refreshData svc b =
     (case userService_getAllUsers svc b of
        (Inl e, b1) \<Rightarrow>
          ([SET_LOADING EUsers True,
            SET_ERROR EUsers (Some msg_refresh)], b1)
      | (Inr us, b1) \<Rightarrow>
     (case SalaryService_getAllSalaries (salaries_client svc) b1 of
        (Inl e, b2) \<Rightarrow>
          ([SET_LOADING EUsers True, SET_USERS us, SET_ERROR EUsers None,
            SET_LOADING ESalaries True,
            SET_ERROR EUsers (Some msg_refresh)], b2)
      | (Inr ss, b2) \<Rightarrow>
     (case OvertimeService_getAllOvertimes (overtimes_client svc) b2 of
        (Inl e, b3) \<Rightarrow>
          ([SET_LOADING EUsers True, SET_USERS us, SET_ERROR EUsers None,
            SET_LOADING ESalaries True, SET_SALARIES ss, SET_ERROR ESalaries None,
            SET_LOADING EOvertimes True,
            SET_ERROR EUsers (Some msg_refresh)], b3)
      | (Inr os, b3) \<Rightarrow>
     (case LeaveService_getAllLeaves (leaves_client svc) b3 of
        (Inl e, b4) \<Rightarrow>
          ([SET_LOADING EUsers True, SET_USERS us, SET_ERROR EUsers None,
            SET_LOADING ESalaries True, SET_SALARIES ss, SET_ERROR ESalaries None,
            SET_LOADING EOvertimes True, SET_OVERTIMES os, SET_ERROR EOvertimes None,
            SET_LOADING ELeaves True,
            SET_ERROR EUsers (Some msg_refresh)], b4)
      | (Inr ls, b4) \<Rightarrow>
          ([SET_LOADING EUsers True, SET_USERS us, SET_ERROR EUsers None,
            SET_LOADING ESalaries True, SET_SALARIES ss, SET_ERROR ESalaries None,
            SET_LOADING EOvertimes True, SET_OVERTIMES os, SET_ERROR EOvertimes None,
            SET_LOADING ELeaves True, SET_LEAVES ls, SET_ERROR ELeaves None], b4)))))"

definition createUser ::
  "'b services \<Rightarrow> user_data \<Rightarrow> 'b \<Rightarrow> (js_error + User) \<times> action list \<times> 'b" where
  "createUser svc userData b =
     (case userService_createUser svc userData b of
        (Inr user, b') \<Rightarrow> (Inr user, [ADD_USER user], b')
      | (Inl e, b') \<Rightarrow>
          (Inl e, [SET_ERROR EUsers (Some (str_Kullanici @ str_olusturulamadi))], b'))"

definition updateUser ::
  "'b services \<Rightarrow> string \<Rightarrow> user_updates \<Rightarrow> 'b \<Rightarrow> (js_error + User option) \<times> action list \<times> 'b" where
  "updateUser svc i userData b =
     (case userService_updateUser svc i userData b of
        (Inr (Some user), b') \<Rightarrow> (Inr (Some user), [UPDATE_USER user], b')
      | (Inr None, b') \<Rightarrow> (Inr None, [], b')
      | (Inl e, b') \<Rightarrow>
          (Inl e, [SET_ERROR EUsers (Some (str_Kullanici @ str_guncellenemedi))], b'))"

definition deleteUser ::
  "'b services \<Rightarrow> string \<Rightarrow> 'b \<Rightarrow> (js_error + bool) \<times> action list \<times> 'b" where
  "deleteUser svc i b =
     (case userService_deleteUser svc i b of
        (Inr success, b') \<Rightarrow> (Inr success, if success then [REMOVE_USER i] else [], b')
      | (Inl e, b') \<Rightarrow>
          (Inl e, [SET_ERROR EUsers (Some (str_Kullanici @ str_silinemedi))], b'))"

text \<open>The services below return an object or throw, so \<open>if (salary)\<close> and its like in the
  update operations always take the first branch.\<close>

definition createSalary ::
  "'b services \<Rightarrow> timestamp \<Rightarrow> salary_data \<Rightarrow> 'b \<Rightarrow> (js_error + Salary) \<times> action list \<times> 'b" where
  "createSalary svc now salaryData b =
     (case SalaryService_createSalary (salaries_client svc) now salaryData b of
        (Inr salary, b') \<Rightarrow> (Inr salary, [ADD_SALARY salary], b')
      | (Inl e, b') \<Rightarrow>
          (Inl e, [SET_ERROR ESalaries (Some (str_Maas_kaydi @ str_olusturulamadi))], b'))"

definition updateSalary ::
  "'b services \<Rightarrow> timestamp \<Rightarrow> string \<Rightarrow> salary_updates \<Rightarrow> 'b
     \<Rightarrow> (js_error + Salary option) \<times> action list \<times> 'b" where
  "updateSalary svc now i salaryData b =
     (case SalaryService_updateSalary (salaries_client svc) (parseInt svc) now i salaryData b of
        (Inr salary, b') \<Rightarrow> (Inr (Some salary), [UPDATE_SALARY salary], b')
      | (Inl e, b') \<Rightarrow>
          (Inl e, [SET_ERROR ESalaries (Some (str_Maas_kaydi @ str_guncellenemedi))], b'))"

definition deleteSalary ::
  "'b services \<Rightarrow> string \<Rightarrow> 'b \<Rightarrow> (js_error + bool) \<times> action list \<times> 'b" where
  "deleteSalary svc i b =
     (case SalaryService_deleteSalary (salaries_client svc) i b of
        (Inr _, b') \<Rightarrow> (Inr True, [REMOVE_SALARY i], b')
      | (Inl e, b') \<Rightarrow>
          (Inl e, [SET_ERROR ESalaries (Some (str_Maas_kaydi @ str_silinemedi))], b'))"

definition createOvertime ::
  "'b services \<Rightarrow> timestamp \<Rightarrow> overtime_data \<Rightarrow> 'b \<Rightarrow> (js_error + Overtime) \<times> action list \<times> 'b" where
  "createOvertime svc now overtimeData b =
     (case OvertimeService_createOvertime (overtimes_client svc) now overtimeData b of
        (Inr overtime, b') \<Rightarrow> (Inr overtime, [ADD_OVERTIME overtime], b')
      | (Inl e, b') \<Rightarrow>
          (Inl e, [SET_ERROR EOvertimes (Some (str_Mesai_kaydi @ str_olusturulamadi))], b'))"

definition updateOvertime ::
  "'b services \<Rightarrow> string \<Rightarrow> overtime_updates \<Rightarrow> 'b
     \<Rightarrow> (js_error + Overtime option) \<times> action list \<times> 'b" where
  "updateOvertime svc i overtimeData b =
     (case OvertimeService_updateOvertime (overtimes_client svc) i overtimeData b of
        (Inr overtime, b') \<Rightarrow> (Inr (Some overtime), [UPDATE_OVERTIME overtime], b')
      | (Inl e, b') \<Rightarrow>
          (Inl e, [SET_ERROR EOvertimes (Some (str_Mesai_kaydi @ str_guncellenemedi))], b'))"

definition deleteOvertime ::
  "'b services \<Rightarrow> string \<Rightarrow> 'b \<Rightarrow> (js_error + bool) \<times> action list \<times> 'b" where
  "deleteOvertime svc i b =
     (case OvertimeService_deleteOvertime (overtimes_client svc) i b of
        (Inr _, b') \<Rightarrow> (Inr True, [REMOVE_OVERTIME i], b')
      | (Inl e, b') \<Rightarrow>
          (Inl e, [SET_ERROR EOvertimes (Some (str_Mesai_kaydi @ str_silinemedi))], b'))"

text \<open>The object literal \<open>{ status }\<close> as a \<open>Partial<Overtime>\<close>.\<close>

definition overtime_only_status :: "status \<Rightarrow> overtime_updates" where
  "overtime_only_status st =
     \<lparr> ou_id = None, ou_userId = None, ou_date = None, ou_hours = None, ou_description = None,
       ou_status = Some st, ou_hourlyRate = None, ou_totalPayment = None, ou_created_at = None \<rparr>"

definition updateOvertimeStatus ::
  "'b services \<Rightarrow> string \<Rightarrow> status \<Rightarrow> 'b \<Rightarrow> (js_error + Overtime option) \<times> action list \<times> 'b" where
  "updateOvertimeStatus svc i st b = updateOvertime svc i (overtime_only_status st) b"

definition createLeave ::
  "'b services \<Rightarrow> timestamp \<Rightarrow> leave_data \<Rightarrow> 'b \<Rightarrow> (js_error + Leave) \<times> action list \<times> 'b" where
  "createLeave svc now leaveData b =
     (case LeaveService_createLeave (leaves_client svc) now leaveData b of
        (Inr leave, b') \<Rightarrow> (Inr leave, [ADD_LEAVE leave], b')
      | (Inl e, b') \<Rightarrow>
          (Inl e, [SET_ERROR ELeaves (Some (str_Izin_kaydi @ str_olusturulamadi))], b'))"

definition updateLeave ::
  "'b services \<Rightarrow> string \<Rightarrow> leave_updates \<Rightarrow> 'b
     \<Rightarrow> (js_error + Leave option) \<times> action list \<times> 'b" where
  "updateLeave svc i leaveData b =
     (case LeaveService_updateLeave (leaves_client svc) i leaveData b of
        (Inr leave, b') \<Rightarrow> (Inr (Some leave), [UPDATE_LEAVE leave], b')
      | (Inl e, b') \<Rightarrow>
          (Inl e, [SET_ERROR ELeaves (Some (str_Izin_kaydi @ str_guncellenemedi))], b'))"

definition deleteLeave ::
  "'b services \<Rightarrow> string \<Rightarrow> 'b \<Rightarrow> (js_error + bool) \<times> action list \<times> 'b" where
  "deleteLeave svc i b =
     (case LeaveService_deleteLeave (leaves_client svc) i b of
        (Inr _, b') \<Rightarrow> (Inr True, [REMOVE_LEAVE i], b')
      | (Inl e, b') \<Rightarrow>
          (Inl e, [SET_ERROR ELeaves (Some (str_Izin_kaydi @ str_silinemedi))], b'))"

definition leave_only_status :: "status \<Rightarrow> leave_updates" where
  "leave_only_status st =
     \<lparr> lu_id = None, lu_userId = None, lu_startDate = None, lu_endDate = None, lu_type = None,
       lu_status = Some st, lu_reason = None, lu_leaveType = None, lu_daysUsed = None,
       lu_created_at = None \<rparr>"

definition updateLeaveStatus ::
  "'b services \<Rightarrow> string \<Rightarrow> status \<Rightarrow> 'b \<Rightarrow> (js_error + Leave option) \<times> action list \<times> 'b" where
  "updateLeaveStatus svc i st b = updateLeave svc i (leave_only_status st) b"

definition clearErrors :: "action list" where
  "clearErrors = [CLEAR_ERRORS]"

text \<open>
  The operations of the context value, one constructor each, the actions an operation
  dispatches and whether it threw, and the store and the outside world after a call and
  after a sequence of calls.
\<close>

datatype store_op =
    RefreshData
  | CreateUser user_data
  | UpdateUser string user_updates
  | DeleteUser string
  | CreateSalary timestamp salary_data
  | UpdateSalary timestamp string salary_updates
  | DeleteSalary string
  | CreateOvertime timestamp overtime_data
  | UpdateOvertime string overtime_updates
  | DeleteOvertime string
  | UpdateOvertimeStatus string status
  | CreateLeave timestamp leave_data
  | UpdateLeave string leave_updates
  | DeleteLeave string
  | UpdateLeaveStatus string status
  | ClearErrors

definition outcome :: "(js_error + 'a) \<times> action list \<times> 'b \<Rightarrow> js_error option \<times> action list \<times> 'b" where
  "outcome r =
     (case r of (Inl e, acts, b') \<Rightarrow> (Some e, acts, b') | (Inr _, acts, b') \<Rightarrow> (None, acts, b'))"

fun call :: "'b services \<Rightarrow> store_op \<Rightarrow> 'b \<Rightarrow> js_error option \<times> action list \<times> 'b" where
  "call svc RefreshData b = (case refreshData svc b of (acts, b') \<Rightarrow> (None, acts, b'))"
| "call svc (CreateUser d) b = outcome (createUser svc d b)"
| "call svc (UpdateUser i d) b = outcome (updateUser svc i d b)"
| "call svc (DeleteUser i) b = outcome (deleteUser svc i b)"
| "call svc (CreateSalary now d) b = outcome (createSalary svc now d b)"
| "call svc (UpdateSalary now i d) b = outcome (updateSalary svc now i d b)"
| "call svc (DeleteSalary i) b = outcome (deleteSalary svc i b)"
| "call svc (CreateOvertime now d) b = outcome (createOvertime svc now d b)"
| "call svc (UpdateOvertime i d) b = outcome (updateOvertime svc i d b)"
| "call svc (DeleteOvertime i) b = outcome (deleteOvertime svc i b)"
| "call svc (UpdateOvertimeStatus i st) b = outcome (updateOvertimeStatus svc i st b)"
| "call svc (CreateLeave now d) b = outcome (createLeave svc now d b)"
| "call svc (UpdateLeave i d) b = outcome (updateLeave svc i d b)"
| "call svc (DeleteLeave i) b = outcome (deleteLeave svc i b)"
| "call svc (UpdateLeaveStatus i st) b = outcome (updateLeaveStatus svc i st b)"
| "call svc ClearErrors b = (None, clearErrors, b)"

definition run :: "'b services \<Rightarrow> store_op \<Rightarrow> NanoDataState \<times> 'b \<Rightarrow> NanoDataState \<times> 'b" where
  "run svc x sb =
     (case call svc x (snd sb) of (_, acts, b') \<Rightarrow> (dispatchAll (fst sb) acts, b'))"

definition run_all :: "'b services \<Rightarrow> store_op list \<Rightarrow> NanoDataState \<times> 'b \<Rightarrow> NanoDataState \<times> 'b" where
  "run_all svc xs sb = foldl (\<lambda>s x. run svc x s) sb xs"

text \<open>The create, update and delete operations, and the entity of each.\<close>

fun crud_entity :: "store_op \<Rightarrow> entity option" where
  "crud_entity RefreshData = None"
| "crud_entity ClearErrors = None"
| "crud_entity (CreateUser _) = Some EUsers"
| "crud_entity (UpdateUser _ _) = Some EUsers"
| "crud_entity (DeleteUser _) = Some EUsers"
| "crud_entity (CreateSalary _ _) = Some ESalaries"
| "crud_entity (UpdateSalary _ _ _) = Some ESalaries"
| "crud_entity (DeleteSalary _) = Some ESalaries"
| "crud_entity (CreateOvertime _ _) = Some EOvertimes"
| "crud_entity (UpdateOvertime _ _) = Some EOvertimes"
| "crud_entity (DeleteOvertime _) = Some EOvertimes"
| "crud_entity (UpdateOvertimeStatus _ _) = Some EOvertimes"
| "crud_entity (CreateLeave _ _) = Some ELeaves"
| "crud_entity (UpdateLeave _ _) = Some ELeaves"
| "crud_entity (DeleteLeave _) = Some ELeaves"
| "crud_entity (UpdateLeaveStatus _ _) = Some ELeaves"

section \<open>The local store adapter (NanoDatabase)\<close>

text \<open>
  A stored object is a list of fields with primitive values. The object stores are created
  with \<open>keyPath: 'id'\<close>, so the key of an object is its \<open>id\<close> field; every id of the
  application, and the \<open>id\<close> parameter of \<open>get\<close> and \<open>delete\<close>, is a string, and an object
  without a string \<open>id\<close> has no key here. An object store holds its objects in key order,
  which is the order \<open>getAll\<close> returns them in.
\<close>

datatype jsval = JNull | JBool bool | JNum real | JStr string

type_synonym obj = "(string \<times> jsval) list"

definition keyOf :: "obj \<Rightarrow> string option" where
  "keyOf ob = (case map_of ob ''id'' of Some (JStr k) \<Rightarrow> Some k | _ \<Rightarrow> None)"

text \<open>The position of an object in its store.\<close>

definition key_str :: "obj \<Rightarrow> string" where
  "key_str ob = (case keyOf ob of Some k \<Rightarrow> k | None \<Rightarrow> [])"

type_synonym idb = "string \<rightharpoonup> obj list"

datatype idb_error = NotInitialized | NotFoundError | DataError | ConstraintError

text \<open>The field \<open>db\<close> of the class: \<open>null\<close> until \<open>init\<close> has opened the database.\<close>

type_synonym NanoDatabase = "idb option"

text \<open>\<open>onupgradeneeded\<close>: each of the five object stores is created unless it exists.\<close>

definition createObjectStore :: "string \<Rightarrow> idb \<Rightarrow> idb" where
  "createObjectStore name d = (if name \<in> dom d then d else d(name \<mapsto> []))"

definition onupgradeneeded :: "idb \<Rightarrow> idb" where
  "onupgradeneeded d =
     createObjectStore ''holidays''
       (createObjectStore ''leaves''
         (createObjectStore ''overtimes''
           (createObjectStore ''salaries''
             (createObjectStore ''users'' d))))"

text \<open>\<open>init\<close> on a browser that has no database of this name yet.\<close>

definition init_new :: NanoDatabase where
  "init_new = Some (onupgradeneeded Map.empty)"

definition getStore :: "NanoDatabase \<Rightarrow> string \<Rightarrow> idb_error + obj list" where
  "getStore this storeName =
     (case this of
        None \<Rightarrow> Inl NotInitialized
      | Some d \<Rightarrow> (case d storeName of None \<Rightarrow> Inl NotFoundError | Some objs \<Rightarrow> Inr objs))"

definition setStore :: "NanoDatabase \<Rightarrow> string \<Rightarrow> obj list \<Rightarrow> NanoDatabase" where
  "setStore this storeName objs = map_option (\<lambda>d. d(storeName \<mapsto> objs)) this"

text \<open>\<open>store.add\<close>: a new key only.\<close>

definition db_create :: "NanoDatabase \<Rightarrow> string \<Rightarrow> obj \<Rightarrow> (idb_error + obj) \<times> NanoDatabase" where
  "db_create this storeName d =
     (case getStore this storeName of
        Inl e \<Rightarrow> (Inl e, this)
      | Inr objs \<Rightarrow>
          (case keyOf d of
             None \<Rightarrow> (Inl DataError, this)
           | Some k \<Rightarrow>
               if Some k \<in> set (map keyOf objs) then (Inl ConstraintError, this)
               else (Inr d, setStore this storeName (insort_key key_str d objs))))"

text \<open>\<open>request.result || null\<close>: an object is truthy.\<close>

definition db_get :: "NanoDatabase \<Rightarrow> string \<Rightarrow> string \<Rightarrow> idb_error + obj option" where
  "db_get this storeName i =
     (case getStore this storeName of
        Inl e \<Rightarrow> Inl e
      | Inr objs \<Rightarrow> Inr (find (\<lambda>ob. keyOf ob = Some i) objs))"

definition db_getAll :: "NanoDatabase \<Rightarrow> string \<Rightarrow> idb_error + obj list" where
  "db_getAll this storeName =
     (case getStore this storeName of
        Inl e \<Rightarrow> Inl e
      | Inr objs \<Rightarrow> Inr objs)"

text \<open>\<open>store.put\<close>: the object replaces the one stored under its key, if any.\<close>

definition db_update :: "NanoDatabase \<Rightarrow> string \<Rightarrow> obj \<Rightarrow> (idb_error + obj) \<times> NanoDatabase" where
  "db_update this storeName d =
     (case getStore this storeName of
        Inl e \<Rightarrow> (Inl e, this)
      | Inr objs \<Rightarrow>
          (case keyOf d of
             None \<Rightarrow> (Inl DataError, this)
           | Some k \<Rightarrow>
               (Inr d, setStore this storeName
                  (insort_key key_str d (filter (\<lambda>ob. keyOf ob \<noteq> Some k) objs)))))"

definition db_delete :: "NanoDatabase \<Rightarrow> string \<Rightarrow> string \<Rightarrow> (idb_error + unit) \<times> NanoDatabase" where
  "db_delete this storeName i =
     (case getStore this storeName of
        Inl e \<Rightarrow> (Inl e, this)
      | Inr objs \<Rightarrow> (Inr (), setStore this storeName (filter (\<lambda>ob. keyOf ob \<noteq> Some i) objs)))"

definition db_clear :: "NanoDatabase \<Rightarrow> string \<Rightarrow> (idb_error + unit) \<times> NanoDatabase" where
  "db_clear this storeName =
     (case getStore this storeName of
        Inl e \<Rightarrow> (Inl e, this)
      | Inr objs \<Rightarrow> (Inr (), setStore this storeName []))"

section \<open>Error classification (errorHandler)\<close>

datatype ErrorType =
  NETWORK | VALIDATION | AUTHENTICATION | AUTHORIZATION | NOT_FOUND | SERVER_ERROR | UNKNOWN

text \<open>The object literal \<open>errorMap\<close>: its own properties.\<close>

definition errorMap :: "(string \<times> ErrorType) list" where
  "errorMap =
     [ (''PGRST116'', NOT_FOUND),
       (''PGRST301'', AUTHENTICATION),
       (''23505'', VALIDATION),
       (''23503'', VALIDATION),
       (''42P01'', NOT_FOUND),
       (''42501'', AUTHORIZATION),
       (''network-request-failed'', NETWORK),
       (''invalid-email'', VALIDATION),
       (''weak-password'', VALIDATION),
       (''user-not-found'', AUTHENTICATION),
       (''wrong-password'', AUTHENTICATION),
       (''email-already-in-use'', VALIDATION),
       (''too-many-requests'', AUTHENTICATION),
       (''user-disabled'', AUTHORIZATION),
       (''permission-denied'', AUTHORIZATION),
       (''not-found'', NOT_FOUND),
       (''unavailable'', NETWORK),
       (''deadline-exceeded'', NETWORK),
       (''resource-exhausted'', SERVER_ERROR),
       (''failed-precondition'', VALIDATION),
       (''aborted'', SERVER_ERROR),
       (''out-of-range'', VALIDATION),
       (''unimplemented'', SERVER_ERROR),
       (''internal'', SERVER_ERROR),
       (''data-loss'', SERVER_ERROR) ]"

text \<open>
  \<open>errorMap[errorCode]\<close> is a property read on an object literal: a name that is not an
  own property is looked up on \<open>Object.prototype\<close>, whose members (functions, and the
  prototype object itself for \<open>__proto__\<close>) are all truthy.
\<close>

definition Object_prototype :: "string list" where
  "Object_prototype =
     [ ''constructor'', ''hasOwnProperty'', ''isPrototypeOf'', ''propertyIsEnumerable'',
       ''toLocaleString'', ''toString'', ''valueOf'', ''__proto__'',
       ''__defineGetter__'', ''__defineSetter__'', ''__lookupGetter__'', ''__lookupSetter__'' ]"

datatype mapped = Type ErrorType | Member_of_Object_prototype string

definition mapSupabaseError :: "string \<Rightarrow> mapped" where
  "mapSupabaseError errorCode =
     (case map_of errorMap errorCode of
        Some t \<Rightarrow> Type t
      | None \<Rightarrow>
          if errorCode \<in> set Object_prototype then Member_of_Object_prototype errorCode
          else Type UNKNOWN)"

section \<open>A reference backend\<close>

text \<open>
  The tables of database-schema.sql behind the clients, for the properties that speak
  of stored records: each table is the list of its rows; an update patches the rows with
  the given id, a column without an entry in the write set keeping its value; a delete
  removes them; a select returns the rows, newest first. The store assigns the id of an
  inserted row (\<open>fresh_ids\<close>) and converts the text it is sent for an integer column
  (\<open>as_int\<close>, a parameter). Whatever makes the backend refuse a query (the network,
  a policy, a constraint) is the injected \<open>fault\<close>; a refused query changes nothing.
\<close>

record world =
  tbl_users :: "user_row list"
  tbl_salaries :: "salary_row list"
  tbl_overtimes :: "overtime_row list"
  tbl_leaves :: "leave_row list"
  fault :: "PostgrestError option"
  fresh_ids :: "string list"

definition ok :: "'d \<Rightarrow> 'b \<Rightarrow> 'd response \<times> 'b" where
  "ok d w = (\<lparr> data = Some d, error = None \<rparr>, w)"

definition refused :: "PostgrestError \<Rightarrow> 'b \<Rightarrow> 'd response \<times> 'b" where
  "refused e w = (\<lparr> data = None, error = Some e \<rparr>, w)"

definition no_content :: "'b \<Rightarrow> unit response \<times> 'b" where
  "no_content w = (\<lparr> data = None, error = None \<rparr>, w)"

definition pg_error :: "string \<Rightarrow> PostgrestError" where
  "pg_error c = \<lparr> code = c, message = [] \<rparr>"

text \<open>\<open>.single()\<close>: exactly one row, or the error PGRST116.\<close>

definition single :: "'row list \<Rightarrow> 'b \<Rightarrow> 'row response \<times> 'b" where
  "single rows w = (case rows of [r] \<Rightarrow> ok r w | _ \<Rightarrow> refused (pg_error ''PGRST116'') w)"

definition newest_first :: "('row \<Rightarrow> timestamp) \<Rightarrow> 'row list \<Rightarrow> 'row list" where
  "newest_first created rows = rev (sort_key created rows)"

definition apply_salary_patch :: "salary_patch \<Rightarrow> salary_row \<Rightarrow> salary_row" where
  "apply_salary_patch p r =
     r\<lparr> sr_base_salary := (case sp_base_salary p of Some v \<Rightarrow> v | None \<Rightarrow> sr_base_salary r),
        sr_overtime_pay := (case sp_overtime_pay p of Some v \<Rightarrow> Some v | None \<Rightarrow> sr_overtime_pay r),
        sr_payment_date := (case sp_payment_date p of Some v \<Rightarrow> v | None \<Rightarrow> sr_payment_date r),
        sr_month := (case sp_month p of Some (Num v) \<Rightarrow> v | _ \<Rightarrow> sr_month r),
        sr_year := (case sp_year p of Some (Num v) \<Rightarrow> v | _ \<Rightarrow> sr_year r) \<rparr>"

definition pg_salaries :: "(string \<Rightarrow> int option) \<Rightarrow> world salary_client" where
  "pg_salaries as_int =
     \<lparr> select_all = (\<lambda>w.
         case fault w of Some e \<Rightarrow> refused e w
         | None \<Rightarrow> ok (newest_first sr_created_at (tbl_salaries w)) w),
       select_by_user = (\<lambda>u w.
         case fault w of Some e \<Rightarrow> refused e w
         | None \<Rightarrow> ok (newest_first sr_created_at (filter (\<lambda>r. sr_user_id r = u) (tbl_salaries w))) w),
       select_by_id = (\<lambda>i w.
         case fault w of Some e \<Rightarrow> refused e w
         | None \<Rightarrow> single (filter (\<lambda>r. sr_id r = i) (tbl_salaries w)) w),
       insert_single = (\<lambda>v w.
         case fault w of Some e \<Rightarrow> refused e w
         | None \<Rightarrow>
             (case (fresh_ids w, as_int (si_month v), as_int (si_year v)) of
                (i # ids, Some m, Some y) \<Rightarrow>
                  ok \<lparr> sr_id = i, sr_user_id = si_user_id v, sr_base_salary = si_base_salary v,
                       sr_overtime_pay = Some (si_overtime_pay v),
                       sr_payment_date = si_payment_date v, sr_month = m, sr_year = y,
                       sr_created_at = si_created_at v \<rparr>
                     (w\<lparr> tbl_salaries := tbl_salaries w @
                          [\<lparr> sr_id = i, sr_user_id = si_user_id v, sr_base_salary = si_base_salary v,
                             sr_overtime_pay = Some (si_overtime_pay v),
                             sr_payment_date = si_payment_date v, sr_month = m, sr_year = y,
                             sr_created_at = si_created_at v \<rparr>],
                        fresh_ids := ids \<rparr>)
              | ([], _, _) \<Rightarrow> refused (pg_error ''23502'') w
              | _ \<Rightarrow> refused (pg_error ''22P02'') w)),
       update_single = (\<lambda>p i w.
         case fault w of Some e \<Rightarrow> refused e w
         | None \<Rightarrow>
             if sp_month p = Some NaN \<or> sp_year p = Some NaN then refused (pg_error ''23502'') w
             else single (filter (\<lambda>r. sr_id r = i)
                            (map (\<lambda>r. if sr_id r = i then apply_salary_patch p r else r) (tbl_salaries w)))
                    (w\<lparr> tbl_salaries :=
                          map (\<lambda>r. if sr_id r = i then apply_salary_patch p r else r) (tbl_salaries w) \<rparr>)),
       delete_eq = (\<lambda>i w.
         case fault w of Some e \<Rightarrow> refused e w
         | None \<Rightarrow> no_content (w\<lparr> tbl_salaries := filter (\<lambda>r. sr_id r \<noteq> i) (tbl_salaries w) \<rparr>)) \<rparr>"

definition apply_overtime_patch :: "overtime_patch \<Rightarrow> overtime_row \<Rightarrow> overtime_row" where
  "apply_overtime_patch p r =
     r\<lparr> or_date := (case op_date p of Some v \<Rightarrow> v | None \<Rightarrow> or_date r),
        or_hours := (case op_hours p of Some v \<Rightarrow> v | None \<Rightarrow> or_hours r),
        or_reason := (case op_reason p of Some v \<Rightarrow> Some v | None \<Rightarrow> or_reason r),
        or_status := (case op_status p of Some v \<Rightarrow> v | None \<Rightarrow> or_status r) \<rparr>"

definition pg_overtimes :: "world overtime_client" where
  "pg_overtimes =
     \<lparr> select_all = (\<lambda>w.
         case fault w of Some e \<Rightarrow> refused e w
         | None \<Rightarrow> ok (newest_first or_created_at (tbl_overtimes w)) w),
       select_by_user = (\<lambda>u w.
         case fault w of Some e \<Rightarrow> refused e w
         | None \<Rightarrow> ok (newest_first or_created_at (filter (\<lambda>r. or_user_id r = u) (tbl_overtimes w))) w),
       select_by_id = (\<lambda>i w.
         case fault w of Some e \<Rightarrow> refused e w
         | None \<Rightarrow> single (filter (\<lambda>r. or_id r = i) (tbl_overtimes w)) w),
       insert_single = (\<lambda>v w.
         case fault w of Some e \<Rightarrow> refused e w
         | None \<Rightarrow>
             (case fresh_ids w of
                i # ids \<Rightarrow>
                  ok \<lparr> or_id = i, or_user_id = oi_user_id v, or_date = oi_date v,
                       or_hours = oi_hours v, or_reason = Some (oi_reason v),
                       or_status = oi_status v, or_created_at = oi_created_at v \<rparr>
                     (w\<lparr> tbl_overtimes := tbl_overtimes w @
                          [\<lparr> or_id = i, or_user_id = oi_user_id v, or_date = oi_date v,
                             or_hours = oi_hours v, or_reason = Some (oi_reason v),
                             or_status = oi_status v, or_created_at = oi_created_at v \<rparr>],
                        fresh_ids := ids \<rparr>)
              | [] \<Rightarrow> refused (pg_error ''23502'') w)),
       update_single = (\<lambda>p i w.
         case fault w of Some e \<Rightarrow> refused e w
         | None \<Rightarrow>
             single (filter (\<lambda>r. or_id r = i)
                       (map (\<lambda>r. if or_id r = i then apply_overtime_patch p r else r) (tbl_overtimes w)))
               (w\<lparr> tbl_overtimes :=
                     map (\<lambda>r. if or_id r = i then apply_overtime_patch p r else r) (tbl_overtimes w) \<rparr>)),
       delete_eq = (\<lambda>i w.
         case fault w of Some e \<Rightarrow> refused e w
         | None \<Rightarrow> no_content (w\<lparr> tbl_overtimes := filter (\<lambda>r. or_id r \<noteq> i) (tbl_overtimes w) \<rparr>)) \<rparr>"

definition apply_leave_patch :: "leave_patch \<Rightarrow> leave_row \<Rightarrow> leave_row" where
  "apply_leave_patch p r =
     r\<lparr> lr_start_date := (case lp_start_date p of Some v \<Rightarrow> v | None \<Rightarrow> lr_start_date r),
        lr_end_date := (case lp_end_date p of Some v \<Rightarrow> v | None \<Rightarrow> lr_end_date r),
        lr_type := (case lp_type p of Some v \<Rightarrow> v | None \<Rightarrow> lr_type r),
        lr_status := (case lp_status p of Some v \<Rightarrow> v | None \<Rightarrow> lr_status r) \<rparr>"

definition pg_leaves :: "world leave_client" where
  "pg_leaves =
     \<lparr> select_all = (\<lambda>w.
         case fault w of Some e \<Rightarrow> refused e w
         | None \<Rightarrow> ok (newest_first lr_created_at (tbl_leaves w)) w),
       select_by_user = (\<lambda>u w.
         case fault w of Some e \<Rightarrow> refused e w
         | None \<Rightarrow> ok (newest_first lr_created_at (filter (\<lambda>r. lr_user_id r = u) (tbl_leaves w))) w),
       select_by_id = (\<lambda>i w.
         case fault w of Some e \<Rightarrow> refused e w
         | None \<Rightarrow> single (filter (\<lambda>r. lr_id r = i) (tbl_leaves w)) w),
       insert_single = (\<lambda>v w.
         case fault w of Some e \<Rightarrow> refused e w
         | None \<Rightarrow>
             (case fresh_ids w of
                i # ids \<Rightarrow>
                  ok \<lparr> lr_id = i, lr_user_id = li_user_id v, lr_start_date = li_start_date v,
                       lr_end_date = li_end_date v, lr_type = li_type v,
                       lr_status = li_status v, lr_created_at = li_created_at v \<rparr>
                     (w\<lparr> tbl_leaves := tbl_leaves w @
                          [\<lparr> lr_id = i, lr_user_id = li_user_id v, lr_start_date = li_start_date v,
                             lr_end_date = li_end_date v, lr_type = li_type v,
                             lr_status = li_status v, lr_created_at = li_created_at v \<rparr>],
                        fresh_ids := ids \<rparr>)
              | [] \<Rightarrow> refused (pg_error ''23502'') w)),
       update_single = (\<lambda>p i w.
         case fault w of Some e \<Rightarrow> refused e w
         | None \<Rightarrow>
             single (filter (\<lambda>r. lr_id r = i)
                       (map (\<lambda>r. if lr_id r = i then apply_leave_patch p r else r) (tbl_leaves w)))
               (w\<lparr> tbl_leaves :=
                     map (\<lambda>r. if lr_id r = i then apply_leave_patch p r else r) (tbl_leaves w) \<rparr>)),
       delete_eq = (\<lambda>i w.
         case fault w of Some e \<Rightarrow> refused e w
         | None \<Rightarrow> no_content (w\<lparr> tbl_leaves := filter (\<lambda>r. lr_id r \<noteq> i) (tbl_leaves w) \<rparr>)) \<rparr>"

definition apply_user_patch :: "user_patch \<Rightarrow> user_row \<Rightarrow> user_row" where
  "apply_user_patch p r =
     r\<lparr> ur_updated_at := up_updated_at p,
        ur_name := (case up_name p of Some v \<Rightarrow> v | None \<Rightarrow> ur_name r),
        ur_email := (case up_email p of Some v \<Rightarrow> v | None \<Rightarrow> ur_email r),
        ur_employee_type := (case up_employee_type p of Some v \<Rightarrow> Some v | None \<Rightarrow> ur_employee_type r),
        ur_start_date := (case up_start_date p of Some v \<Rightarrow> Some v | None \<Rightarrow> ur_start_date r) \<rparr>"

text \<open>Table \<open>users\<close> has no \<open>user_id\<close> column (no service selects users by it), and the
  other tables reference it \<open>ON DELETE CASCADE\<close>.\<close>

definition pg_users :: "world user_client" where
  "pg_users =
     \<lparr> select_all = (\<lambda>w.
         case fault w of Some e \<Rightarrow> refused e w
         | None \<Rightarrow> ok (newest_first ur_created_at (tbl_users w)) w),
       select_by_user = (\<lambda>u w.
         case fault w of Some e \<Rightarrow> refused e w
         | None \<Rightarrow> refused (pg_error ''42703'') w),
       select_by_id = (\<lambda>i w.
         case fault w of Some e \<Rightarrow> refused e w
         | None \<Rightarrow> single (filter (\<lambda>r. ur_id r = i) (tbl_users w)) w),
       insert_single = (\<lambda>v w.
         case fault w of Some e \<Rightarrow> refused e w
         | None \<Rightarrow>
             (case fresh_ids w of
                i # ids \<Rightarrow>
                  ok \<lparr> ur_id = i, ur_email = ui_email v, ur_name = ui_name v,
                       ur_employee_type = Some (ui_employee_type v),
                       ur_start_date = Some (ui_start_date v),
                       ur_created_at = ui_created_at v, ur_updated_at = ui_updated_at v \<rparr>
                     (w\<lparr> tbl_users := tbl_users w @
                          [\<lparr> ur_id = i, ur_email = ui_email v, ur_name = ui_name v,
                             ur_employee_type = Some (ui_employee_type v),
                             ur_start_date = Some (ui_start_date v),
                             ur_created_at = ui_created_at v, ur_updated_at = ui_updated_at v \<rparr>],
                        fresh_ids := ids \<rparr>)
              | [] \<Rightarrow> refused (pg_error ''23502'') w)),
       update_single = (\<lambda>p i w.
         case fault w of Some e \<Rightarrow> refused e w
         | None \<Rightarrow>
             single (filter (\<lambda>r. ur_id r = i)
                       (map (\<lambda>r. if ur_id r = i then apply_user_patch p r else r) (tbl_users w)))
               (w\<lparr> tbl_users :=
                     map (\<lambda>r. if ur_id r = i then apply_user_patch p r else r) (tbl_users w) \<rparr>)),
       delete_eq = (\<lambda>i w.
         case fault w of Some e \<Rightarrow> refused e w
         | None \<Rightarrow>
             no_content (w\<lparr> tbl_users := filter (\<lambda>r. ur_id r \<noteq> i) (tbl_users w),
                            tbl_salaries := filter (\<lambda>r. sr_user_id r \<noteq> i) (tbl_salaries w),
                            tbl_overtimes := filter (\<lambda>r. or_user_id r \<noteq> i) (tbl_overtimes w),
                            tbl_leaves := filter (\<lambda>r. lr_user_id r \<noteq> i) (tbl_leaves w) \<rparr>)) \<rparr>"

section \<open>Notions the properties use\<close>

text \<open>The invariant of a \<open>Salary\<close>, with and without the bonus.\<close>

definition gross_ok :: "Salary \<Rightarrow> bool" where
  "gross_ok s =
     (s_grossSalary s = s_baseSalary s + s_overtimePay s \<and>
      s_grossSalary s = s_baseSalary s + s_overtimePay s + s_bonus s)"

text \<open>A field of an update that was supplied with a falsy value: the number 0, or the
  empty string.\<close>

definition supplied_falsy_num :: "real option \<Rightarrow> bool" where
  "supplied_falsy_num x = (case x of None \<Rightarrow> False | Some v \<Rightarrow> \<not> truthy_num v)"

definition supplied_falsy_str :: "string option \<Rightarrow> bool" where
  "supplied_falsy_str x = (case x of None \<Rightarrow> False | Some v \<Rightarrow> \<not> truthy_str v)"

text \<open>The message each create, update and delete operation stores when it fails.\<close>

fun crud_message :: "store_op \<Rightarrow> string" where
  "crud_message (CreateUser _) = str_Kullanici @ str_olusturulamadi"
| "crud_message (UpdateUser _ _) = str_Kullanici @ str_guncellenemedi"
| "crud_message (DeleteUser _) = str_Kullanici @ str_silinemedi"
| "crud_message (CreateSalary _ _) = str_Maas_kaydi @ str_olusturulamadi"
| "crud_message (UpdateSalary _ _ _) = str_Maas_kaydi @ str_guncellenemedi"
| "crud_message (DeleteSalary _) = str_Maas_kaydi @ str_silinemedi"
| "crud_message (CreateOvertime _ _) = str_Mesai_kaydi @ str_olusturulamadi"
| "crud_message (UpdateOvertime _ _) = str_Mesai_kaydi @ str_guncellenemedi"
| "crud_message (DeleteOvertime _) = str_Mesai_kaydi @ str_silinemedi"
| "crud_message (UpdateOvertimeStatus _ _) = str_Mesai_kaydi @ str_guncellenemedi"
| "crud_message (CreateLeave _ _) = str_Izin_kaydi @ str_olusturulamadi"
| "crud_message (UpdateLeave _ _) = str_Izin_kaydi @ str_guncellenemedi"
| "crud_message (DeleteLeave _) = str_Izin_kaydi @ str_silinemedi"
| "crud_message (UpdateLeaveStatus _ _) = str_Izin_kaydi @ str_guncellenemedi"
| "crud_message RefreshData = msg_refresh"
| "crud_message ClearErrors = []"

text \<open>The four collections of the store.\<close>

definition collections :: "NanoDataState \<Rightarrow> User list \<times> Salary list \<times> Overtime list \<times> Leave list" where
  "collections st = (users st, salaries st, overtimes st, leaves st)"

section \<open>Concrete inputs\<close>

text \<open>A client whose every query is refused with the given error; the outside world is
  the number of queries made so far.\<close>

definition failing_client :: "PostgrestError \<Rightarrow> ('row, 'ins, 'upd, nat) table_client" where
  "failing_client e =
     \<lparr> select_all = (\<lambda>n. (\<lparr> data = None, error = Some e \<rparr>, Suc n)),
       select_by_user = (\<lambda>u n. (\<lparr> data = None, error = Some e \<rparr>, Suc n)),
       select_by_id = (\<lambda>i n. (\<lparr> data = None, error = Some e \<rparr>, Suc n)),
       insert_single = (\<lambda>v n. (\<lparr> data = None, error = Some e \<rparr>, Suc n)),
       update_single = (\<lambda>v i n. (\<lparr> data = None, error = Some e \<rparr>, Suc n)),
       delete_eq = (\<lambda>i n. (\<lparr> data = None, error = Some e \<rparr>, Suc n)) \<rparr>"

definition demo_error :: PostgrestError where
  "demo_error = \<lparr> code = ''42501'', message = ''permission denied'' \<rparr>"

definition demo_as_int :: "string \<Rightarrow> int option" where
  "demo_as_int s = (if s = ''1'' then Some 1 else if s = ''2024'' then Some 2024 else None)"

definition demo_parseInt :: "string \<Rightarrow> js_int" where
  "demo_parseInt s = (if s = ''1'' then Num 1 else if s = ''2024'' then Num 2024 else NaN)"

definition demo_salary_data :: salary_data where
  "demo_salary_data =
     \<lparr> sd_userId = ''demo-user-1'', sd_baseSalary = 15000, sd_overtimePay = Some 2000,
       sd_paymentDate = ''2024-01-31'', sd_month = ''1'', sd_year = ''2024'' \<rparr>"

definition demo_salary_row :: salary_row where
  "demo_salary_row =
     \<lparr> sr_id = ''salary-1'', sr_user_id = ''demo-user-1'', sr_base_salary = 25000,
       sr_overtime_pay = Some 2000, sr_payment_date = ''2024-11-30'', sr_month = 11,
       sr_year = 2024, sr_created_at = 5 \<rparr>"

definition demo_overtime_row :: overtime_row where
  "demo_overtime_row =
     \<lparr> or_id = ''overtime-1'', or_user_id = ''demo-user-1'', or_date = ''2024-11-15'',
       or_hours = 8, or_reason = Some ''Proje teslimi'', or_status = Pending,
       or_created_at = 6 \<rparr>"

definition demo_leave_row :: leave_row where
  "demo_leave_row =
     \<lparr> lr_id = ''leave-1'', lr_user_id = ''demo-user-1'', lr_start_date = ''2024-12-01'',
       lr_end_date = ''2024-12-03'', lr_type = ''annual'', lr_status = Pending,
       lr_created_at = 7 \<rparr>"

definition demo_user_row :: user_row where
  "demo_user_row =
     \<lparr> ur_id = ''demo-user-1'', ur_email = ''ahmet@company.com'', ur_name = ''Ahmet'',
       ur_employee_type = Some ''normal'', ur_start_date = Some ''2024-01-15'',
       ur_created_at = 1, ur_updated_at = 1 \<rparr>"

definition demo_world :: world where
  "demo_world =
     \<lparr> tbl_users = [demo_user_row], tbl_salaries = [demo_salary_row],
       tbl_overtimes = [demo_overtime_row], tbl_leaves = [demo_leave_row],
       fault = None, fresh_ids = [''row-2''] \<rparr>"

definition demo_salary_updates :: salary_updates where
  "demo_salary_updates =
     \<lparr> su_id = None, su_userId = None, su_month = Some '''', su_year = Some '''',
       su_grossSalary = None, su_netSalary = None, su_baseSalary = Some 0,
       su_overtimePay = Some 0, su_bonus = None, su_besDeduction = None,
       su_paymentDate = Some '''', su_created_at = None \<rparr>"

definition demo_overtime_data :: overtime_data where
  "demo_overtime_data =
     \<lparr> od_userId = ''demo-user-1'', od_date = ''2024-01-15'', od_hours = 8,
       od_description = Some ''Project deadline'', od_status = None \<rparr>"

definition demo_overtime_updates :: overtime_updates where
  "demo_overtime_updates =
     \<lparr> ou_id = None, ou_userId = None, ou_date = Some '''', ou_hours = Some 0,
       ou_description = Some '''', ou_status = None, ou_hourlyRate = None,
       ou_totalPayment = None, ou_created_at = None \<rparr>"

definition demo_leave_data :: leave_data where
  "demo_leave_data =
     \<lparr> ld_userId = ''demo-user-1'', ld_startDate = ''2024-02-01'', ld_endDate = ''2024-02-05'',
       ld_type = ''annual'', ld_status = None \<rparr>"

definition demo_leave_updates :: leave_updates where
  "demo_leave_updates =
     \<lparr> lu_id = None, lu_userId = None, lu_startDate = Some '''', lu_endDate = Some '''',
       lu_type = Some '''', lu_status = None, lu_reason = None, lu_leaveType = None,
       lu_daysUsed = None, lu_created_at = None \<rparr>"

definition demo_user_data :: user_data where
  "demo_user_data =
     \<lparr> ud_email = ''ayse@company.com'', ud_name = ''Ayse'', ud_employeeType = ''normal'',
       ud_startDate = ''2024-02-01'' \<rparr>"

definition demo_user_updates :: user_updates where
  "demo_user_updates =
     \<lparr> uu_id = None, uu_email = Some '''', uu_name = Some '''', uu_employeeType = Some '''',
       uu_startDate = Some '''', uu_createdAt = None, uu_updatedAt = None \<rparr>"

text \<open>
  Services over the counting world whose first \<open>k\<close> fetches (users, salaries, overtimes,
  leaves, in this order) answer and whose other calls fail with \<open>demo_error\<close>. For
  \<open>k \<ge> 1\<close> the user service is one that answers, which the exported \<open>userService\<close>
  never does (\<open>repository_services\<close>): these are the services as the store expects them.
\<close>

definition answering_client :: "'row list \<Rightarrow> ('row, 'ins, 'upd, nat) table_client" where
  "answering_client rows =
     \<lparr> select_all = (\<lambda>n. (\<lparr> data = Some rows, error = None \<rparr>, Suc n)),
       select_by_user = (\<lambda>u n. (\<lparr> data = Some rows, error = None \<rparr>, Suc n)),
       select_by_id = (\<lambda>i n. (\<lparr> data = None, error = Some demo_error \<rparr>, Suc n)),
       insert_single = (\<lambda>v n. (\<lparr> data = None, error = Some demo_error \<rparr>, Suc n)),
       update_single = (\<lambda>v i n. (\<lparr> data = None, error = Some demo_error \<rparr>, Suc n)),
       delete_eq = (\<lambda>i n. (\<lparr> data = None, error = Some demo_error \<rparr>, Suc n)) \<rparr>"

definition services_up_to :: "nat \<Rightarrow> nat services" where
  "services_up_to k =
     \<lparr> userService_getAllUsers =
         (\<lambda>n. if 1 \<le> k then (Inr [toUser demo_user_row], Suc n) else (Inl (Backend demo_error), Suc n)),
       userService_createUser = (\<lambda>d n. (Inl (Backend demo_error), Suc n)),
       userService_updateUser = (\<lambda>i d n. (Inl (Backend demo_error), Suc n)),
       userService_deleteUser = (\<lambda>i n. (Inl (Backend demo_error), Suc n)),
       salaries_client =
         Some (if 2 \<le> k then answering_client [demo_salary_row] else failing_client demo_error),
       overtimes_client =
         Some (if 3 \<le> k then answering_client [demo_overtime_row] else failing_client demo_error),
       leaves_client =
         Some (if 4 \<le> k then answering_client [demo_leave_row] else failing_client demo_error),
       parseInt = demo_parseInt \<rparr>"

text \<open>The repository's services with a backend that refuses every query, over the counting
  world, and with the reference backend.\<close>

definition refused_services :: "nat services" where
  "refused_services =
     repository_services (Some (failing_client demo_error)) (Some (failing_client demo_error))
       (Some (failing_client demo_error)) demo_parseInt"

definition reference_services :: "world services" where
  "reference_services =
     repository_services (Some (pg_salaries demo_as_int)) (Some pg_overtimes) (Some pg_leaves)
       demo_parseInt"

text \<open>Objects for the local store, and a database that holds them.\<close>

definition demo_obj :: obj where
  "demo_obj =
     [(''id'', JStr ''salary-1''), (''userId'', JStr ''demo-user-1''), (''baseSalary'', JNum 25000),
      (''overtimePay'', JNum 2000), (''month'', JNum 11), (''year'', JNum 2024)]"

definition demo_obj2 :: obj where
  "demo_obj2 =
     [(''id'', JStr ''salary-0''), (''userId'', JStr ''demo-user-2''), (''baseSalary'', JNum 18000),
      (''overtimePay'', JNum 1500), (''month'', JNum 2), (''year'', JNum 2024)]"

definition demo_db :: NanoDatabase where
  "demo_db = snd (db_create (snd (db_create init_new ''salaries'' demo_obj)) ''salaries'' demo_obj2)"

section \<open>Properties\<close>

lemmas salary_defs = SalaryService_getAll_def SalaryService_getByUserId_def SalaryService_create_def
  SalaryService_update_def SalaryService_delete_def
lemmas overtime_defs = OvertimeService_getAll_def OvertimeService_getByUserId_def OvertimeService_create_def
  OvertimeService_update_def OvertimeService_delete_def OvertimeService_updateStatus_def
lemmas leave_defs = LeaveService_getAll_def LeaveService_getByUserId_def LeaveService_create_def
  LeaveService_update_def LeaveService_delete_def LeaveService_updateStatus_def
lemmas user_defs = UserService_getAll_def UserService_create_def
  UserService_update_def UserService_delete_def

subsection \<open>Salaries carry their derived sums\<close>

lemma gross_ok_toSalary: "gross_ok (toSalary d)"
  by (simp add: gross_ok_def toSalary_def)

lemma getAll_gross: "fst (SalaryService_getAll c b) = Inr ss \<Longrightarrow> \<forall>s\<in>set ss. gross_ok s"
  by (auto simp: SalaryService_getAll_def gross_ok_toSalary split: option.splits prod.splits)

lemma getByUserId_gross: "fst (SalaryService_getByUserId c u b) = Inr ss \<Longrightarrow> \<forall>s\<in>set ss. gross_ok s"
  by (auto simp: SalaryService_getByUserId_def gross_ok_toSalary split: option.splits prod.splits)

lemma create_gross: "fst (SalaryService_create c now d b) = Inr s \<Longrightarrow> gross_ok s"
  by (auto simp: SalaryService_create_def gross_ok_toSalary split: option.splits prod.splits)

lemma update_gross: "fst (SalaryService_update c pI now i upd b) = Inr s \<Longrightarrow> gross_ok s"
  by (auto simp: SalaryService_update_def gross_ok_toSalary split: option.splits prod.splits)

lemma set_newest_first: "set (newest_first k rows) = set rows"
  by (simp add: newest_first_def)

lemma create_then_read:
  assumes "fault w = None" "fresh_ids w = k # ks"
    "as_int (sd_month d) = Some m" "as_int (sd_year d) = Some y"
    "sd_baseSalary d = 15000" "sd_overtimePay d = Some 2000"
  shows "\<exists>s w'. SalaryService_create (Some (pg_salaries as_int)) now d w = (Inr s, w') \<and>
            s_id s = k \<and> s_grossSalary s = 17000 \<and>
            (\<exists>rs. fst (SalaryService_getAll (Some (pg_salaries as_int)) w') = Inr rs \<and> s \<in> set rs) \<and>
            (\<exists>rs. fst (SalaryService_getByUserId (Some (pg_salaries as_int)) (sd_userId d) w') = Inr rs
                   \<and> s \<in> set rs)"
  using assms
  by (simp add: SalaryService_create_def SalaryService_getAll_def SalaryService_getByUserId_def
      salary_insertData_def pg_salaries_def ok_def refused_def toSalary_def num_or_def truthy_num_def
      set_newest_first)

text \<open>
  C1. Every Salary that getAll, getByUserId, create or update returns has
  grossSalary = baseSalary + overtimePay (and = baseSalary + overtimePay + bonus, the
  bonus being 0), whatever the backend answers. On the reference backend, creating a
  Salary with baseSalary 15000 and overtimePay 2000 returns a Salary with grossSalary
  17000, and getAll and getByUserId of its user then return that Salary.
\<close>

theorem C1_gross_salary:
  "(fst (SalaryService_getAll c b) = Inr ss \<longrightarrow> (\<forall>s\<in>set ss. gross_ok s)) \<and>
   (fst (SalaryService_getByUserId c u b) = Inr ss' \<longrightarrow> (\<forall>s\<in>set ss'. gross_ok s)) \<and>
   (fst (SalaryService_create c now d b) = Inr s1 \<longrightarrow> gross_ok s1) \<and>
   (fst (SalaryService_update c pI now i upd b) = Inr s2 \<longrightarrow> gross_ok s2) \<and>
   (fault w = None \<and> fresh_ids w = k # ks \<and>
    as_int (sd_month d0) = Some m \<and> as_int (sd_year d0) = Some y \<and>
    sd_baseSalary d0 = 15000 \<and> sd_overtimePay d0 = Some 2000 \<longrightarrow>
      (\<exists>s w'. SalaryService_create (Some (pg_salaries as_int)) now0 d0 w = (Inr s, w') \<and>
         s_id s = k \<and> s_grossSalary s = 17000 \<and>
         (\<exists>rs. fst (SalaryService_getAll (Some (pg_salaries as_int)) w') = Inr rs \<and> s \<in> set rs) \<and>
         (\<exists>rs. fst (SalaryService_getByUserId (Some (pg_salaries as_int)) (sd_userId d0) w') = Inr rs
                \<and> s \<in> set rs)))"
proof (intro conjI impI)
  show "\<forall>s\<in>set ss. gross_ok s" if "fst (SalaryService_getAll c b) = Inr ss"
    using that by (rule getAll_gross)
  show "\<forall>s\<in>set ss'. gross_ok s" if "fst (SalaryService_getByUserId c u b) = Inr ss'"
    using that by (rule getByUserId_gross)
  show "gross_ok s1" if "fst (SalaryService_create c now d b) = Inr s1"
    using that by (rule create_gross)
  show "gross_ok s2" if "fst (SalaryService_update c pI now i upd b) = Inr s2"
    using that by (rule update_gross)
  show "\<exists>s w'. SalaryService_create (Some (pg_salaries as_int)) now0 d0 w = (Inr s, w') \<and>
         s_id s = k \<and> s_grossSalary s = 17000 \<and>
         (\<exists>rs. fst (SalaryService_getAll (Some (pg_salaries as_int)) w') = Inr rs \<and> s \<in> set rs) \<and>
         (\<exists>rs. fst (SalaryService_getByUserId (Some (pg_salaries as_int)) (sd_userId d0) w') = Inr rs
                \<and> s \<in> set rs)"
    if "fault w = None \<and> fresh_ids w = k # ks \<and>
        as_int (sd_month d0) = Some m \<and> as_int (sd_year d0) = Some y \<and>
        sd_baseSalary d0 = 15000 \<and> sd_overtimePay d0 = Some 2000"
    using that create_then_read [of w k ks as_int d0 m y now0] by blast
qed

theorem C1_gross_salary_witness:
  "fst (SalaryService_getAll (Some (pg_salaries demo_as_int)) demo_world) = Inr [toSalary demo_salary_row] \<and>
   gross_ok (toSalary demo_salary_row) \<and>
   s_grossSalary (toSalary demo_salary_row) = 27000 \<and>
   fst (SalaryService_getByUserId (Some (pg_salaries demo_as_int)) ''demo-user-1'' demo_world)
     = Inr [toSalary demo_salary_row] \<and>
   fault demo_world = None \<and> fresh_ids demo_world = [''row-2''] \<and>
   demo_as_int (sd_month demo_salary_data) = Some 1 \<and>
   demo_as_int (sd_year demo_salary_data) = Some 2024 \<and>
   sd_baseSalary demo_salary_data = 15000 \<and> sd_overtimePay demo_salary_data = Some 2000 \<and>
   (\<exists>s w'. SalaryService_create (Some (pg_salaries demo_as_int)) 9 demo_salary_data demo_world = (Inr s, w') \<and>
      s_id s = ''row-2'' \<and> s_grossSalary s = 17000 \<and>
      (\<exists>rs. fst (SalaryService_getAll (Some (pg_salaries demo_as_int)) w') = Inr rs \<and> s \<in> set rs) \<and>
      (\<exists>rs. fst (SalaryService_getByUserId (Some (pg_salaries demo_as_int)) ''demo-user-1'' w') = Inr rs
             \<and> s \<in> set rs))"
proof -
  have h1: "fst (SalaryService_getAll (Some (pg_salaries demo_as_int)) demo_world) = Inr [toSalary demo_salary_row]"
    by (simp add: SalaryService_getAll_def pg_salaries_def demo_world_def ok_def newest_first_def)
  have h2: "fst (SalaryService_getByUserId (Some (pg_salaries demo_as_int)) ''demo-user-1'' demo_world)
     = Inr [toSalary demo_salary_row]"
    by (simp add: SalaryService_getByUserId_def pg_salaries_def demo_world_def ok_def newest_first_def
        demo_salary_row_def)
  have h3: "fault demo_world = None \<and> fresh_ids demo_world = [''row-2''] \<and>
     demo_as_int (sd_month demo_salary_data) = Some 1 \<and>
     demo_as_int (sd_year demo_salary_data) = Some 2024 \<and>
     sd_baseSalary demo_salary_data = 15000 \<and> sd_overtimePay demo_salary_data = Some 2000"
    by (simp add: demo_world_def demo_as_int_def demo_salary_data_def)
  have h4: "s_grossSalary (toSalary demo_salary_row) = 27000"
    by (simp add: toSalary_def demo_salary_row_def num_or_def truthy_num_def)
  have u: "sd_userId demo_salary_data = ''demo-user-1''"
    by (simp add: demo_salary_data_def)
  note inst = C1_gross_salary [where c = "Some (pg_salaries demo_as_int)" and b = demo_world
      and ss = "[toSalary demo_salary_row]" and w = demo_world and k = "''row-2''" and ks = "[]"
      and as_int = demo_as_int and ?d0.0 = demo_salary_data and m = 1 and y = 2024 and ?now0.0 = 9]
  from inst h1 have g: "gross_ok (toSalary demo_salary_row)" by simp
  from inst h3 u have sc: "(\<exists>s w'. SalaryService_create (Some (pg_salaries demo_as_int)) 9 demo_salary_data demo_world = (Inr s, w') \<and>
      s_id s = ''row-2'' \<and> s_grossSalary s = 17000 \<and>
      (\<exists>rs. fst (SalaryService_getAll (Some (pg_salaries demo_as_int)) w') = Inr rs \<and> s \<in> set rs) \<and>
      (\<exists>rs. fst (SalaryService_getByUserId (Some (pg_salaries demo_as_int)) ''demo-user-1'' w') = Inr rs
             \<and> s \<in> set rs))" by simp
  from h1 h2 h3 h4 g sc show ?thesis by blast
qed

subsection \<open>A backend error is thrown as it is\<close>

lemma salary_rethrows:
  "(error (fst (select_all c b)) = Some e \<longrightarrow>
     SalaryService_getAll (Some c) b = (Inl (Backend e), snd (select_all c b))) \<and>
   (error (fst (select_by_user c u b)) = Some e \<longrightarrow>
     SalaryService_getByUserId (Some c) u b = (Inl (Backend e), snd (select_by_user c u b))) \<and>
   (error (fst (insert_single c (salary_insertData now d) b)) = Some e \<longrightarrow>
     SalaryService_create (Some c) now d b
       = (Inl (Backend e), snd (insert_single c (salary_insertData now d) b))) \<and>
   (error (fst (update_single c (salary_updateData pI now upd) i b)) = Some e \<longrightarrow>
     SalaryService_update (Some c) pI now i upd b
       = (Inl (Backend e), snd (update_single c (salary_updateData pI now upd) i b))) \<and>
   (error (fst (delete_eq c i b)) = Some e \<longrightarrow>
     SalaryService_delete (Some c) i b = (Inl (Backend e), snd (delete_eq c i b)))"
  by (simp add: salary_defs split: prod.splits)

lemma overtime_rethrows:
  "(error (fst (select_all c b)) = Some e \<longrightarrow>
     OvertimeService_getAll (Some c) b = (Inl (Backend e), snd (select_all c b))) \<and>
   (error (fst (select_by_user c u b)) = Some e \<longrightarrow>
     OvertimeService_getByUserId (Some c) u b = (Inl (Backend e), snd (select_by_user c u b))) \<and>
   (error (fst (insert_single c (overtime_insertData now d) b)) = Some e \<longrightarrow>
     OvertimeService_create (Some c) now d b
       = (Inl (Backend e), snd (insert_single c (overtime_insertData now d) b))) \<and>
   (error (fst (update_single c (overtime_updateData upd) i b)) = Some e \<longrightarrow>
     OvertimeService_update (Some c) i upd b
       = (Inl (Backend e), snd (update_single c (overtime_updateData upd) i b))) \<and>
   (error (fst (update_single c (overtime_statusData st) i b)) = Some e \<longrightarrow>
     OvertimeService_updateStatus (Some c) i st b
       = (Inl (Backend e), snd (update_single c (overtime_statusData st) i b))) \<and>
   (error (fst (delete_eq c i b)) = Some e \<longrightarrow>
     OvertimeService_delete (Some c) i b = (Inl (Backend e), snd (delete_eq c i b)))"
  by (simp add: overtime_defs split: prod.splits)

lemma leave_rethrows:
  "(error (fst (select_all c b)) = Some e \<longrightarrow>
     LeaveService_getAll (Some c) b = (Inl (Backend e), snd (select_all c b))) \<and>
   (error (fst (select_by_user c u b)) = Some e \<longrightarrow>
     LeaveService_getByUserId (Some c) u b = (Inl (Backend e), snd (select_by_user c u b))) \<and>
   (error (fst (insert_single c (leave_insertData now d) b)) = Some e \<longrightarrow>
     LeaveService_create (Some c) now d b
       = (Inl (Backend e), snd (insert_single c (leave_insertData now d) b))) \<and>
   (error (fst (update_single c (leave_updateData upd) i b)) = Some e \<longrightarrow>
     LeaveService_update (Some c) i upd b
       = (Inl (Backend e), snd (update_single c (leave_updateData upd) i b))) \<and>
   (error (fst (update_single c (leave_statusData st) i b)) = Some e \<longrightarrow>
     LeaveService_updateStatus (Some c) i st b
       = (Inl (Backend e), snd (update_single c (leave_statusData st) i b))) \<and>
   (error (fst (delete_eq c i b)) = Some e \<longrightarrow>
     LeaveService_delete (Some c) i b = (Inl (Backend e), snd (delete_eq c i b)))"
  by (simp add: leave_defs split: prod.splits)

lemma user_rethrows:
  "(error (fst (select_all c b)) = Some e \<longrightarrow>
     UserService_getAll (Some c) b = (Inl (Backend e), snd (select_all c b))) \<and>
   (error (fst (insert_single c (user_insertData now d) b)) = Some e \<longrightarrow>
     UserService_create (Some c) now d b
       = (Inl (Backend e), snd (insert_single c (user_insertData now d) b))) \<and>
   (error (fst (update_single c (user_updateData now upd) i b)) = Some e \<longrightarrow>
     UserService_update (Some c) now i upd b
       = (Inl (Backend e), snd (update_single c (user_updateData now upd) i b))) \<and>
   (error (fst (delete_eq c i b)) = Some e \<longrightarrow>
     UserService_delete (Some c) i b = (Inl (Backend e), snd (delete_eq c i b)))"
  by (simp add: user_defs split: prod.splits)

text \<open>\<open>UserService.getById\<close> is not one of these operations: it logs the error and returns
  \<open>null\<close>.\<close>

lemma UserService_getById_returns_null:
  "error (fst (select_by_id c i b)) = Some e \<Longrightarrow>
     UserService_getById (Some c) i b = (Inr None, snd (select_by_id c i b))"
  by (auto simp: UserService_getById_def split: prod.splits)

text \<open>
  C8. For every operation of the four entity services (getAll, getByUserId, create,
  update, delete, and updateStatus), whatever the client: when the one query the
  operation sends answers with an error, the operation throws that very error object,
  and the outside world is as that one query left it (no second query, no retry).
\<close>

theorem C8_backend_error_rethrown:
  "((error (fst (select_all cs b)) = Some e \<longrightarrow>
      SalaryService_getAll (Some cs) b = (Inl (Backend e), snd (select_all cs b))) \<and>
    (error (fst (select_by_user cs u b)) = Some e \<longrightarrow>
      SalaryService_getByUserId (Some cs) u b = (Inl (Backend e), snd (select_by_user cs u b))) \<and>
    (error (fst (insert_single cs (salary_insertData now ds) b)) = Some e \<longrightarrow>
      SalaryService_create (Some cs) now ds b
        = (Inl (Backend e), snd (insert_single cs (salary_insertData now ds) b))) \<and>
    (error (fst (update_single cs (salary_updateData pI now us) i b)) = Some e \<longrightarrow>
      SalaryService_update (Some cs) pI now i us b
        = (Inl (Backend e), snd (update_single cs (salary_updateData pI now us) i b))) \<and>
    (error (fst (delete_eq cs i b)) = Some e \<longrightarrow>
      SalaryService_delete (Some cs) i b = (Inl (Backend e), snd (delete_eq cs i b)))) \<and>
   ((error (fst (select_all co b)) = Some e \<longrightarrow>
      OvertimeService_getAll (Some co) b = (Inl (Backend e), snd (select_all co b))) \<and>
    (error (fst (select_by_user co u b)) = Some e \<longrightarrow>
      OvertimeService_getByUserId (Some co) u b = (Inl (Backend e), snd (select_by_user co u b))) \<and>
    (error (fst (insert_single co (overtime_insertData now dov) b)) = Some e \<longrightarrow>
      OvertimeService_create (Some co) now dov b
        = (Inl (Backend e), snd (insert_single co (overtime_insertData now dov) b))) \<and>
    (error (fst (update_single co (overtime_updateData uo) i b)) = Some e \<longrightarrow>
      OvertimeService_update (Some co) i uo b
        = (Inl (Backend e), snd (update_single co (overtime_updateData uo) i b))) \<and>
    (error (fst (update_single co (overtime_statusData st) i b)) = Some e \<longrightarrow>
      OvertimeService_updateStatus (Some co) i st b
        = (Inl (Backend e), snd (update_single co (overtime_statusData st) i b))) \<and>
    (error (fst (delete_eq co i b)) = Some e \<longrightarrow>
      OvertimeService_delete (Some co) i b = (Inl (Backend e), snd (delete_eq co i b)))) \<and>
   ((error (fst (select_all cl b)) = Some e \<longrightarrow>
      LeaveService_getAll (Some cl) b = (Inl (Backend e), snd (select_all cl b))) \<and>
    (error (fst (select_by_user cl u b)) = Some e \<longrightarrow>
      LeaveService_getByUserId (Some cl) u b = (Inl (Backend e), snd (select_by_user cl u b))) \<and>
    (error (fst (insert_single cl (leave_insertData now dl) b)) = Some e \<longrightarrow>
      LeaveService_create (Some cl) now dl b
        = (Inl (Backend e), snd (insert_single cl (leave_insertData now dl) b))) \<and>
    (error (fst (update_single cl (leave_updateData ul) i b)) = Some e \<longrightarrow>
      LeaveService_update (Some cl) i ul b
        = (Inl (Backend e), snd (update_single cl (leave_updateData ul) i b))) \<and>
    (error (fst (update_single cl (leave_statusData st) i b)) = Some e \<longrightarrow>
      LeaveService_updateStatus (Some cl) i st b
        = (Inl (Backend e), snd (update_single cl (leave_statusData st) i b))) \<and>
    (error (fst (delete_eq cl i b)) = Some e \<longrightarrow>
      LeaveService_delete (Some cl) i b = (Inl (Backend e), snd (delete_eq cl i b)))) \<and>
   ((error (fst (select_all cu b)) = Some e \<longrightarrow>
      UserService_getAll (Some cu) b = (Inl (Backend e), snd (select_all cu b))) \<and>
    (error (fst (insert_single cu (user_insertData now du) b)) = Some e \<longrightarrow>
      UserService_create (Some cu) now du b
        = (Inl (Backend e), snd (insert_single cu (user_insertData now du) b))) \<and>
    (error (fst (update_single cu (user_updateData now uu) i b)) = Some e \<longrightarrow>
      UserService_update (Some cu) now i uu b
        = (Inl (Backend e), snd (update_single cu (user_updateData now uu) i b))) \<and>
    (error (fst (delete_eq cu i b)) = Some e \<longrightarrow>
      UserService_delete (Some cu) i b = (Inl (Backend e), snd (delete_eq cu i b))))"
  by (rule conjI [OF salary_rethrows conjI [OF overtime_rethrows conjI [OF leave_rethrows user_rethrows]]])

theorem C8_backend_error_rethrown_witness:
  "SalaryService_getAll (Some (failing_client demo_error)) 0 = (Inl (Backend demo_error), 1) \<and>
   SalaryService_getByUserId (Some (failing_client demo_error)) ''demo-user-1'' 0 = (Inl (Backend demo_error), 1) \<and>
   SalaryService_create (Some (failing_client demo_error)) 9 demo_salary_data 0 = (Inl (Backend demo_error), 1) \<and>
   SalaryService_update (Some (failing_client demo_error)) demo_parseInt 9 ''salary-1'' demo_salary_updates 0
     = (Inl (Backend demo_error), 1) \<and>
   SalaryService_delete (Some (failing_client demo_error)) ''salary-1'' 0 = (Inl (Backend demo_error), 1) \<and>
   OvertimeService_getAll (Some (failing_client demo_error)) 0 = (Inl (Backend demo_error), 1) \<and>
   OvertimeService_getByUserId (Some (failing_client demo_error)) ''demo-user-1'' 0 = (Inl (Backend demo_error), 1) \<and>
   OvertimeService_create (Some (failing_client demo_error)) 9 demo_overtime_data 0 = (Inl (Backend demo_error), 1) \<and>
   OvertimeService_update (Some (failing_client demo_error)) ''overtime-1'' (overtime_only_status Approved) 0
     = (Inl (Backend demo_error), 1) \<and>
   OvertimeService_updateStatus (Some (failing_client demo_error)) ''overtime-1'' Approved 0
     = (Inl (Backend demo_error), 1) \<and>
   OvertimeService_delete (Some (failing_client demo_error)) ''overtime-1'' 0 = (Inl (Backend demo_error), 1) \<and>
   LeaveService_getAll (Some (failing_client demo_error)) 0 = (Inl (Backend demo_error), 1) \<and>
   LeaveService_getByUserId (Some (failing_client demo_error)) ''demo-user-1'' 0 = (Inl (Backend demo_error), 1) \<and>
   LeaveService_create (Some (failing_client demo_error)) 9 demo_leave_data 0 = (Inl (Backend demo_error), 1) \<and>
   LeaveService_update (Some (failing_client demo_error)) ''leave-1'' (leave_only_status Approved) 0
     = (Inl (Backend demo_error), 1) \<and>
   LeaveService_updateStatus (Some (failing_client demo_error)) ''leave-1'' Approved 0
     = (Inl (Backend demo_error), 1) \<and>
   LeaveService_delete (Some (failing_client demo_error)) ''leave-1'' 0 = (Inl (Backend demo_error), 1) \<and>
   UserService_getAll (Some (failing_client demo_error)) 0 = (Inl (Backend demo_error), 1) \<and>
   UserService_create (Some (failing_client demo_error)) 9 demo_user_data 0 = (Inl (Backend demo_error), 1) \<and>
   UserService_update (Some (failing_client demo_error)) 9 ''demo-user-1'' demo_user_updates 0
     = (Inl (Backend demo_error), 1) \<and>
   UserService_delete (Some (failing_client demo_error)) ''demo-user-1'' 0 = (Inl (Backend demo_error), 1)"
  using C8_backend_error_rethrown [where cs = "failing_client demo_error" and co = "failing_client demo_error"
      and cl = "failing_client demo_error" and cu = "failing_client demo_error" and b = 0
      and e = demo_error and u = "''demo-user-1''" and now = 9 and ds = demo_salary_data
      and pI = demo_parseInt and us = demo_salary_updates and i = "''salary-1''"]
    C8_backend_error_rethrown [where cs = "failing_client demo_error" and co = "failing_client demo_error"
      and cl = "failing_client demo_error" and cu = "failing_client demo_error" and b = 0
      and e = demo_error and u = "''demo-user-1''" and now = 9 and dov = demo_overtime_data
      and uo = "overtime_only_status Approved" and st = Approved and i = "''overtime-1''"]
    C8_backend_error_rethrown [where cs = "failing_client demo_error" and co = "failing_client demo_error"
      and cl = "failing_client demo_error" and cu = "failing_client demo_error" and b = 0
      and e = demo_error and u = "''demo-user-1''" and now = 9 and dl = demo_leave_data
      and ul = "leave_only_status Approved" and st = Approved and i = "''leave-1''"]
    C8_backend_error_rethrown [where cs = "failing_client demo_error" and co = "failing_client demo_error"
      and cl = "failing_client demo_error" and cu = "failing_client demo_error" and b = 0
      and e = demo_error and now = 9 and du = demo_user_data
      and uu = demo_user_updates and i = "''demo-user-1''"]
  by (simp add: failing_client_def)

subsection \<open>The store after a failed call\<close>

lemmas alias_defs =
  SalaryService_getAllSalaries_def SalaryService_createSalary_def SalaryService_updateSalary_def
  SalaryService_deleteSalary_def OvertimeService_getAllOvertimes_def OvertimeService_createOvertime_def
  OvertimeService_updateOvertime_def OvertimeService_deleteOvertime_def LeaveService_getAllLeaves_def
  LeaveService_createLeave_def LeaveService_updateLeave_def LeaveService_deleteLeave_def

lemmas store_defs =
  createUser_def updateUser_def deleteUser_def createSalary_def updateSalary_def deleteSalary_def
  createOvertime_def updateOvertime_def deleteOvertime_def updateOvertimeStatus_def
  createLeave_def updateLeave_def deleteLeave_def updateLeaveStatus_def

lemma crud_failure:
  assumes "crud_entity x = Some ent" and "fst (call svc x b) = Some e"
  shows "dispatchAll st (fst (snd (call svc x b)))
           = st\<lparr>errors := set_error ent (Some (crud_message x)) (errors st)\<rparr>"
  using assms
  by (cases x)
     (auto simp: store_defs outcome_def dispatchAll_def split: prod.splits sum.splits option.splits if_splits)

lemma crud_message_nonempty: "crud_entity x = Some ent \<Longrightarrow> crud_message x \<noteq> []"
  by (cases x) (simp_all add: str_Kullanici_def str_Maas_kaydi_def str_Mesai_kaydi_def str_Izin_kaydi_def)


lemma outcome_Inl: "fst r = Inl e \<Longrightarrow> fst (outcome r) = Some e"
  by (cases r) (simp add: outcome_def)

lemma createUser_throws:
  "fst (userService_createUser svc ud b) = Inl e \<Longrightarrow> fst (createUser svc ud b) = Inl e"
  by (auto simp: createUser_def split: prod.splits sum.splits option.splits)

lemma updateUser_throws:
  "fst (userService_updateUser svc i uu b) = Inl e \<Longrightarrow> fst (updateUser svc i uu b) = Inl e"
  by (auto simp: updateUser_def split: prod.splits sum.splits option.splits)

lemma deleteUser_throws:
  "fst (userService_deleteUser svc i b) = Inl e \<Longrightarrow> fst (deleteUser svc i b) = Inl e"
  by (auto simp: deleteUser_def split: prod.splits sum.splits option.splits)

lemma createSalary_throws:
  "fst (SalaryService_create (salaries_client svc) now sd b) = Inl e
     \<Longrightarrow> fst (createSalary svc now sd b) = Inl e"
  by (auto simp: createSalary_def SalaryService_createSalary_def split: prod.splits sum.splits option.splits)

lemma updateSalary_throws:
  "fst (SalaryService_update (salaries_client svc) (parseInt svc) now i su b) = Inl e
     \<Longrightarrow> fst (updateSalary svc now i su b) = Inl e"
  by (auto simp: updateSalary_def SalaryService_updateSalary_def split: prod.splits sum.splits option.splits)

lemma deleteSalary_throws:
  "fst (SalaryService_delete (salaries_client svc) i b) = Inl e \<Longrightarrow> fst (deleteSalary svc i b) = Inl e"
  by (auto simp: deleteSalary_def SalaryService_deleteSalary_def split: prod.splits sum.splits option.splits)

lemma createOvertime_throws:
  "fst (OvertimeService_create (overtimes_client svc) now od b) = Inl e
     \<Longrightarrow> fst (createOvertime svc now od b) = Inl e"
  by (auto simp: createOvertime_def OvertimeService_createOvertime_def split: prod.splits sum.splits option.splits)

lemma updateOvertime_throws:
  "fst (OvertimeService_update (overtimes_client svc) i ou b) = Inl e
     \<Longrightarrow> fst (updateOvertime svc i ou b) = Inl e"
  by (auto simp: updateOvertime_def OvertimeService_updateOvertime_def split: prod.splits sum.splits option.splits)

lemma deleteOvertime_throws:
  "fst (OvertimeService_delete (overtimes_client svc) i b) = Inl e \<Longrightarrow> fst (deleteOvertime svc i b) = Inl e"
  by (auto simp: deleteOvertime_def OvertimeService_deleteOvertime_def split: prod.splits sum.splits option.splits)

lemma createLeave_throws:
  "fst (LeaveService_create (leaves_client svc) now ld b) = Inl e
     \<Longrightarrow> fst (createLeave svc now ld b) = Inl e"
  by (auto simp: createLeave_def LeaveService_createLeave_def split: prod.splits sum.splits option.splits)

lemma updateLeave_throws:
  "fst (LeaveService_update (leaves_client svc) i lu b) = Inl e
     \<Longrightarrow> fst (updateLeave svc i lu b) = Inl e"
  by (auto simp: updateLeave_def LeaveService_updateLeave_def split: prod.splits sum.splits option.splits)

lemma deleteLeave_throws:
  "fst (LeaveService_delete (leaves_client svc) i b) = Inl e \<Longrightarrow> fst (deleteLeave svc i b) = Inl e"
  by (auto simp: deleteLeave_def LeaveService_deleteLeave_def split: prod.splits sum.splits option.splits)

lemma service_failure_throws:
  "(fst (userService_createUser svc ud b) = Inl e \<longrightarrow> fst (call svc (CreateUser ud) b) = Some e) \<and>
   (fst (userService_updateUser svc i uu b) = Inl e \<longrightarrow> fst (call svc (UpdateUser i uu) b) = Some e) \<and>
   (fst (userService_deleteUser svc i b) = Inl e \<longrightarrow> fst (call svc (DeleteUser i) b) = Some e) \<and>
   (fst (SalaryService_create (salaries_client svc) now sd b) = Inl e \<longrightarrow>
      fst (call svc (CreateSalary now sd) b) = Some e) \<and>
   (fst (SalaryService_update (salaries_client svc) (parseInt svc) now i su b) = Inl e \<longrightarrow>
      fst (call svc (UpdateSalary now i su) b) = Some e) \<and>
   (fst (SalaryService_delete (salaries_client svc) i b) = Inl e \<longrightarrow>
      fst (call svc (DeleteSalary i) b) = Some e) \<and>
   (fst (OvertimeService_create (overtimes_client svc) now od b) = Inl e \<longrightarrow>
      fst (call svc (CreateOvertime now od) b) = Some e) \<and>
   (fst (OvertimeService_update (overtimes_client svc) i ou b) = Inl e \<longrightarrow>
      fst (call svc (UpdateOvertime i ou) b) = Some e) \<and>
   (fst (OvertimeService_delete (overtimes_client svc) i b) = Inl e \<longrightarrow>
      fst (call svc (DeleteOvertime i) b) = Some e) \<and>
   (fst (OvertimeService_update (overtimes_client svc) i (overtime_only_status st) b) = Inl e \<longrightarrow>
      fst (call svc (UpdateOvertimeStatus i st) b) = Some e) \<and>
   (fst (LeaveService_create (leaves_client svc) now ld b) = Inl e \<longrightarrow>
      fst (call svc (CreateLeave now ld) b) = Some e) \<and>
   (fst (LeaveService_update (leaves_client svc) i lu b) = Inl e \<longrightarrow>
      fst (call svc (UpdateLeave i lu) b) = Some e) \<and>
   (fst (LeaveService_delete (leaves_client svc) i b) = Inl e \<longrightarrow>
      fst (call svc (DeleteLeave i) b) = Some e) \<and>
   (fst (LeaveService_update (leaves_client svc) i (leave_only_status st) b) = Inl e \<longrightarrow>
      fst (call svc (UpdateLeaveStatus i st) b) = Some e)"
  by (auto simp: updateOvertimeStatus_def updateLeaveStatus_def
      intro!: outcome_Inl createUser_throws updateUser_throws deleteUser_throws createSalary_throws
        updateSalary_throws deleteSalary_throws createOvertime_throws updateOvertime_throws
        deleteOvertime_throws createLeave_throws updateLeave_throws deleteLeave_throws)



lemma refresh_users_fail:
  assumes "fst (userService_getAllUsers svc b) = Inl e"
  shows "dispatchAll st (fst (refreshData svc b))
           = st\<lparr>loadingStates := (loadingStates st)\<lparr>ls_users := True\<rparr>,
                 errors := (errors st)\<lparr>er_users := Some msg_refresh\<rparr>\<rparr>"
proof -
  from assms obtain b1 where "userService_getAllUsers svc b = (Inl e, b1)"
    by (cases "userService_getAllUsers svc b") auto
  then show ?thesis by (simp add: refreshData_def dispatchAll_def)
qed


lemma repository_refreshData:
  "refreshData (repository_services sc oc lc pI) b
     = ([SET_LOADING EUsers True, SET_ERROR EUsers (Some msg_refresh)], b)"
  by (simp add: refreshData_def repository_services_def)

text \<open>
  C2. For every create, update and delete operation of the store and every entity: when
  the operation's service call throws, the operation throws the same error, and the store
  is the prior store with only the entity's error field changed, to the operation's
  (non-empty) Turkish message. refreshData is different: when its users fetch throws, the
  store is the prior store with the users error field set to the message of refreshData
  and, besides, the users loading flag set. With the repository's user service the users
  fetch of every call throws, a TypeError.
\<close>

theorem C2_failed_call_sets_error:
  "((fst (userService_createUser svc ud b) = Inl e \<longrightarrow> fst (call svc (CreateUser ud) b) = Some e) \<and>
    (fst (userService_updateUser svc i uu b) = Inl e \<longrightarrow> fst (call svc (UpdateUser i uu) b) = Some e) \<and>
    (fst (userService_deleteUser svc i b) = Inl e \<longrightarrow> fst (call svc (DeleteUser i) b) = Some e) \<and>
    (fst (SalaryService_create (salaries_client svc) now sd b) = Inl e \<longrightarrow>
       fst (call svc (CreateSalary now sd) b) = Some e) \<and>
    (fst (SalaryService_update (salaries_client svc) (parseInt svc) now i su b) = Inl e \<longrightarrow>
       fst (call svc (UpdateSalary now i su) b) = Some e) \<and>
    (fst (SalaryService_delete (salaries_client svc) i b) = Inl e \<longrightarrow>
       fst (call svc (DeleteSalary i) b) = Some e) \<and>
    (fst (OvertimeService_create (overtimes_client svc) now od b) = Inl e \<longrightarrow>
       fst (call svc (CreateOvertime now od) b) = Some e) \<and>
    (fst (OvertimeService_update (overtimes_client svc) i ou b) = Inl e \<longrightarrow>
       fst (call svc (UpdateOvertime i ou) b) = Some e) \<and>
    (fst (OvertimeService_delete (overtimes_client svc) i b) = Inl e \<longrightarrow>
       fst (call svc (DeleteOvertime i) b) = Some e) \<and>
    (fst (OvertimeService_update (overtimes_client svc) i (overtime_only_status s) b) = Inl e \<longrightarrow>
       fst (call svc (UpdateOvertimeStatus i s) b) = Some e) \<and>
    (fst (LeaveService_create (leaves_client svc) now ld b) = Inl e \<longrightarrow>
       fst (call svc (CreateLeave now ld) b) = Some e) \<and>
    (fst (LeaveService_update (leaves_client svc) i lu b) = Inl e \<longrightarrow>
       fst (call svc (UpdateLeave i lu) b) = Some e) \<and>
    (fst (LeaveService_delete (leaves_client svc) i b) = Inl e \<longrightarrow>
       fst (call svc (DeleteLeave i) b) = Some e) \<and>
    (fst (LeaveService_update (leaves_client svc) i (leave_only_status s) b) = Inl e \<longrightarrow>
       fst (call svc (UpdateLeaveStatus i s) b) = Some e)) \<and>
   (crud_entity x = Some ent \<and> fst (call svc x b) = Some e \<longrightarrow>
      dispatchAll st (fst (snd (call svc x b)))
        = st\<lparr>errors := set_error ent (Some (crud_message x)) (errors st)\<rparr> \<and>
      crud_message x \<noteq> []) \<and>
   (fst (userService_getAllUsers svc b) = Inl e \<longrightarrow>
      dispatchAll st (fst (refreshData svc b))
        = st\<lparr>loadingStates := (loadingStates st)\<lparr>ls_users := True\<rparr>,
             errors := (errors st)\<lparr>er_users := Some msg_refresh\<rparr>\<rparr>) \<and>
   (fst (userService_getAllUsers (repository_services sc oc lc pI) b) = Inl TypeError \<and>
      dispatchAll st (fst (refreshData (repository_services sc oc lc pI) b))
        = st\<lparr>loadingStates := (loadingStates st)\<lparr>ls_users := True\<rparr>,
             errors := (errors st)\<lparr>er_users := Some msg_refresh\<rparr>\<rparr>)"
proof -
  have crud: "crud_entity x = Some ent \<and> fst (call svc x b) = Some e \<longrightarrow>
      dispatchAll st (fst (snd (call svc x b)))
        = st\<lparr>errors := set_error ent (Some (crud_message x)) (errors st)\<rparr> \<and>
      crud_message x \<noteq> []"
    using crud_failure [of x ent svc b e st] crud_message_nonempty [of x ent] by simp
  have r1: "fst (userService_getAllUsers svc b) = Inl e \<longrightarrow>
      dispatchAll st (fst (refreshData svc b))
        = st\<lparr>loadingStates := (loadingStates st)\<lparr>ls_users := True\<rparr>,
             errors := (errors st)\<lparr>er_users := Some msg_refresh\<rparr>\<rparr>"
    using refresh_users_fail [of svc b e st] by simp
  have u: "fst (userService_getAllUsers (repository_services sc oc lc pI) b) = Inl TypeError"
    by (simp add: repository_services_def)
  have r2: "fst (userService_getAllUsers (repository_services sc oc lc pI) b) = Inl TypeError \<and>
      dispatchAll st (fst (refreshData (repository_services sc oc lc pI) b))
        = st\<lparr>loadingStates := (loadingStates st)\<lparr>ls_users := True\<rparr>,
             errors := (errors st)\<lparr>er_users := Some msg_refresh\<rparr>\<rparr>"
    using u refresh_users_fail [OF u, of st] by simp
  show ?thesis
    by (rule conjI [OF service_failure_throws conjI [OF crud conjI [OF r1 r2]]])
qed

theorem C2_failed_call_sets_error_witness:
  "fst (SalaryService_create (salaries_client refused_services) 9 demo_salary_data 0)
     = Inl (Backend demo_error) \<and>
   crud_entity (CreateSalary 9 demo_salary_data) = Some ESalaries \<and>
   fst (call refused_services (CreateSalary 9 demo_salary_data) 0) = Some (Backend demo_error) \<and>
   dispatchAll initialState (fst (snd (call refused_services (CreateSalary 9 demo_salary_data) 0)))
     = initialState\<lparr>errors := (errors initialState)
          \<lparr>er_salaries := Some (str_Maas_kaydi @ str_olusturulamadi)\<rparr>\<rparr> \<and>
   fst (userService_createUser refused_services demo_user_data 0) = Inl TypeError \<and>
   crud_entity (CreateUser demo_user_data) = Some EUsers \<and>
   fst (call refused_services (CreateUser demo_user_data) 0) = Some TypeError \<and>
   dispatchAll initialState (fst (snd (call refused_services (CreateUser demo_user_data) 0)))
     = initialState\<lparr>errors := (errors initialState)
          \<lparr>er_users := Some (str_Kullanici @ str_olusturulamadi)\<rparr>\<rparr> \<and>
   fst (userService_getAllUsers refused_services 0) = Inl TypeError \<and>
   dispatchAll initialState (fst (refreshData refused_services 0))
     = initialState\<lparr>loadingStates := (loadingStates initialState)\<lparr>ls_users := True\<rparr>,
          errors := (errors initialState)\<lparr>er_users := Some msg_refresh\<rparr>\<rparr>"
proof -
  have h0: "fst (SalaryService_create (salaries_client refused_services) 9 demo_salary_data 0)
     = Inl (Backend demo_error)"
    by (simp add: refused_services_def repository_services_def failing_client_def SalaryService_create_def)
  have ce: "crud_entity (CreateSalary 9 demo_salary_data) = Some ESalaries"
    by simp
  have hu: "fst (userService_createUser refused_services demo_user_data 0) = Inl TypeError"
    by (simp add: refused_services_def repository_services_def)
  have cu: "crud_entity (CreateUser demo_user_data) = Some EUsers"
    by simp
  have g0: "fst (userService_getAllUsers refused_services 0) = Inl TypeError"
    by (simp add: refused_services_def repository_services_def)
  note a = C2_failed_call_sets_error [where svc = refused_services and b = 0 and e = "Backend demo_error"
      and now = 9 and sd = demo_salary_data and x = "CreateSalary 9 demo_salary_data"
      and ent = ESalaries and st = initialState]
  note u = C2_failed_call_sets_error [where svc = refused_services and b = 0 and e = TypeError
      and ud = demo_user_data and x = "CreateUser demo_user_data"
      and ent = EUsers and st = initialState]
  note a1 = a [THEN conjunct1, THEN conjunct2, THEN conjunct2, THEN conjunct2, THEN conjunct1,
      THEN mp, OF h0]
  note a2' = a [THEN conjunct2, THEN conjunct1, THEN mp, OF conjI [OF ce a1], THEN conjunct1]
  have a2: "dispatchAll initialState (fst (snd (call refused_services (CreateSalary 9 demo_salary_data) 0)))
     = initialState\<lparr>errors := (errors initialState)
          \<lparr>er_salaries := Some (str_Maas_kaydi @ str_olusturulamadi)\<rparr>\<rparr>"
    using a2' by simp
  note u1 = u [THEN conjunct1, THEN conjunct1, THEN mp, OF hu]
  note u2' = u [THEN conjunct2, THEN conjunct1, THEN mp, OF conjI [OF cu u1], THEN conjunct1]
  have u2: "dispatchAll initialState (fst (snd (call refused_services (CreateUser demo_user_data) 0)))
     = initialState\<lparr>errors := (errors initialState)
          \<lparr>er_users := Some (str_Kullanici @ str_olusturulamadi)\<rparr>\<rparr>"
    using u2' by simp
  note g1 = u [THEN conjunct2, THEN conjunct2, THEN conjunct1, THEN mp, OF g0]
  from h0 ce a1 a2 hu cu u1 u2 g0 g1
  show ?thesis by (intro conjI)
qed

text \<open>
  A failure inside refreshData does not leave the store as it was but for an error
  field: the users fetch throws, and the store after the call differs from the initial
  store in its users loading flag as well.
\<close>

theorem C2_refreshData_counterexample:
  "fst (userService_getAllUsers refused_services 0) = Inl TypeError \<and>
   er_users (errors (dispatchAll initialState (fst (refreshData refused_services 0)))) = Some msg_refresh \<and>
   ls_users (loadingStates initialState) = False \<and>
   ls_users (loadingStates (dispatchAll initialState (fst (refreshData refused_services 0)))) = True \<and>
   dispatchAll initialState (fst (refreshData refused_services 0))
     \<noteq> initialState\<lparr>errors := errors (dispatchAll initialState (fst (refreshData refused_services 0)))\<rparr>"
proof -
  have r: "fst (refreshData refused_services 0) = [SET_LOADING EUsers True, SET_ERROR EUsers (Some msg_refresh)]"
    by (simp add: refused_services_def repository_refreshData)
  have l: "ls_users (loadingStates (dispatchAll initialState (fst (refreshData refused_services 0)))) = True"
    by (simp add: r dispatchAll_def)
  have i: "ls_users (loadingStates initialState) = False"
    by (simp add: initialState_def)
  have n: "dispatchAll initialState (fst (refreshData refused_services 0))
     \<noteq> initialState\<lparr>errors := errors (dispatchAll initialState (fst (refreshData refused_services 0)))\<rparr>"
  proof
    assume "dispatchAll initialState (fst (refreshData refused_services 0))
      = initialState\<lparr>errors := errors (dispatchAll initialState (fst (refreshData refused_services 0)))\<rparr>"
    then have "ls_users (loadingStates (dispatchAll initialState (fst (refreshData refused_services 0))))
      = ls_users (loadingStates (initialState\<lparr>errors := errors (dispatchAll initialState (fst (refreshData refused_services 0)))\<rparr>))"
      by (rule arg_cong)
    with l i show False by simp
  qed
  have e: "er_users (errors (dispatchAll initialState (fst (refreshData refused_services 0)))) = Some msg_refresh"
    by (simp add: r dispatchAll_def)
  have g: "fst (userService_getAllUsers refused_services 0) = Inl TypeError"
    by (simp add: refused_services_def repository_services_def)
  from g e i l n show ?thesis by (intro conjI)
qed

subsection \<open>refreshData with the repository's user service\<close>

text \<open>
  C4. With the repository's user service refreshData does not fetch the four collections:
  its users fetch throws before a query is sent, the actions dispatched are SET_LOADING
  for users and the SET_ERROR of the catch block, the outside world is as it was, and no
  collection of the store is replaced. On the reference backend with one row in each
  table, where the salary, overtime and leave services would each return one record, the
  store started empty holds no user, salary, overtime or leave after the call.
\<close>

theorem C4_refreshData_stops_at_users:
  "refreshData (repository_services sc oc lc pI) b
     = ([SET_LOADING EUsers True, SET_ERROR EUsers (Some msg_refresh)], b) \<and>
   collections (dispatchAll st (fst (refreshData (repository_services sc oc lc pI) b))) = collections st \<and>
   fst (SalaryService_getAll (salaries_client reference_services) demo_world) = Inr [toSalary demo_salary_row] \<and>
   fst (OvertimeService_getAll (overtimes_client reference_services) demo_world)
     = Inr [toOvertime demo_overtime_row] \<and>
   fst (LeaveService_getAll (leaves_client reference_services) demo_world) = Inr [toLeave demo_leave_row] \<and>
   snd (refreshData reference_services demo_world) = demo_world \<and>
   collections (dispatchAll initialState (fst (refreshData reference_services demo_world)))
     = ([], [], [], [])"
proof -
  have c: "collections (dispatchAll st (fst (refreshData (repository_services sc oc lc pI) b))) = collections st"
    by (simp add: repository_refreshData dispatchAll_def collections_def)
  have s: "fst (SalaryService_getAll (salaries_client reference_services) demo_world) = Inr [toSalary demo_salary_row]"
    by (simp add: reference_services_def repository_services_def SalaryService_getAll_def pg_salaries_def
        demo_world_def ok_def newest_first_def)
  have ov: "fst (OvertimeService_getAll (overtimes_client reference_services) demo_world)
     = Inr [toOvertime demo_overtime_row]"
    by (simp add: reference_services_def repository_services_def OvertimeService_getAll_def pg_overtimes_def
        demo_world_def ok_def newest_first_def)
  have l: "fst (LeaveService_getAll (leaves_client reference_services) demo_world) = Inr [toLeave demo_leave_row]"
    by (simp add: reference_services_def repository_services_def LeaveService_getAll_def pg_leaves_def
        demo_world_def ok_def newest_first_def)
  have w: "snd (refreshData reference_services demo_world) = demo_world"
    by (simp add: reference_services_def repository_refreshData)
  have e: "collections (dispatchAll initialState (fst (refreshData reference_services demo_world)))
     = ([], [], [], [])"
    by (simp add: reference_services_def repository_refreshData dispatchAll_def collections_def initialState_def)
  show ?thesis
    by (rule conjI [OF repository_refreshData conjI [OF c conjI [OF s conjI [OF ov conjI [OF l conjI [OF w e]]]]]])
qed

subsection \<open>Loading flags\<close>

lemma refreshData_no_reset:
  "a \<in> set (fst (refreshData svc b)) \<Longrightarrow> a \<noteq> SET_LOADING ent False"
  by (auto simp: refreshData_def split: prod.splits sum.splits)

lemma outcome_actions: "fst (snd (outcome r)) = fst (snd r)"
  by (cases r) (auto simp: outcome_def split: sum.splits)

lemma user_ops_no_reset:
  "a \<in> set (fst (snd (createUser svc d b))) \<Longrightarrow> a \<noteq> SET_LOADING ent False"
  "a \<in> set (fst (snd (updateUser svc i u b))) \<Longrightarrow> a \<noteq> SET_LOADING ent False"
  "a \<in> set (fst (snd (deleteUser svc i b))) \<Longrightarrow> a \<noteq> SET_LOADING ent False"
  by (auto simp: createUser_def updateUser_def deleteUser_def
      split: prod.splits sum.splits option.splits if_splits)

lemma salary_ops_no_reset:
  "a \<in> set (fst (snd (createSalary svc now sd b))) \<Longrightarrow> a \<noteq> SET_LOADING ent False"
  "a \<in> set (fst (snd (updateSalary svc now i su b))) \<Longrightarrow> a \<noteq> SET_LOADING ent False"
  "a \<in> set (fst (snd (deleteSalary svc i b))) \<Longrightarrow> a \<noteq> SET_LOADING ent False"
  by (auto simp: createSalary_def updateSalary_def deleteSalary_def
      split: prod.splits sum.splits option.splits if_splits)

lemma overtime_ops_no_reset:
  "a \<in> set (fst (snd (createOvertime svc now od b))) \<Longrightarrow> a \<noteq> SET_LOADING ent False"
  "a \<in> set (fst (snd (updateOvertime svc i ou b))) \<Longrightarrow> a \<noteq> SET_LOADING ent False"
  "a \<in> set (fst (snd (deleteOvertime svc i b))) \<Longrightarrow> a \<noteq> SET_LOADING ent False"
  by (auto simp: createOvertime_def updateOvertime_def deleteOvertime_def
      split: prod.splits sum.splits option.splits if_splits)

lemma leave_ops_no_reset:
  "a \<in> set (fst (snd (createLeave svc now ld b))) \<Longrightarrow> a \<noteq> SET_LOADING ent False"
  "a \<in> set (fst (snd (updateLeave svc i lu b))) \<Longrightarrow> a \<noteq> SET_LOADING ent False"
  "a \<in> set (fst (snd (deleteLeave svc i b))) \<Longrightarrow> a \<noteq> SET_LOADING ent False"
  by (auto simp: createLeave_def updateLeave_def deleteLeave_def
      split: prod.splits sum.splits option.splits if_splits)

lemma call_no_reset:
  assumes "a \<in> set (fst (snd (call svc x b)))"
  shows "a \<noteq> SET_LOADING ent False"
proof (cases x)
  case RefreshData
  with assms show ?thesis
    by (auto simp: split: prod.splits dest: refreshData_no_reset [of _ svc b ent])
next
  case ClearErrors
  with assms show ?thesis by (simp add: clearErrors_def)
qed (use assms in \<open>auto simp: outcome_actions updateOvertimeStatus_def updateLeaveStatus_def
      dest: user_ops_no_reset salary_ops_no_reset overtime_ops_no_reset leave_ops_no_reset\<close>)

lemma reducer_keeps_loading:
  assumes "\<forall>e. a \<noteq> SET_LOADING e False" and "loading_of ent (loadingStates st)"
  shows "loading_of ent (loadingStates (nanoDataReducer st a))"
proof (cases a)
  case (SET_LOADING e v)
  with assms have "v" by (cases v) auto
  with SET_LOADING assms(2) show ?thesis by (cases e; cases ent) auto
qed (use assms(2) in auto)

lemma dispatchAll_keeps_loading:
  assumes "\<forall>a\<in>set acts. \<forall>e. a \<noteq> SET_LOADING e False" and "loading_of ent (loadingStates st)"
  shows "loading_of ent (loadingStates (dispatchAll st acts))"
  using assms unfolding dispatchAll_def
proof (induction acts arbitrary: st)
  case Nil
  then show ?case by simp
next
  case (Cons a acts)
  then show ?case by (simp add: reducer_keeps_loading)
qed

lemma reducer_sets_loading:
  "loading_of ent (loadingStates (nanoDataReducer st (SET_LOADING ent True)))"
  by (cases ent) auto

lemma dispatchAll_sets_loading:
  assumes "\<forall>a\<in>set acts. \<forall>e. a \<noteq> SET_LOADING e False" and "SET_LOADING ent True \<in> set acts"
  shows "loading_of ent (loadingStates (dispatchAll st acts))"
  using assms
proof (induction acts arbitrary: st)
  case Nil
  then show ?case by simp
next
  case (Cons a acts)
  show ?case
  proof (cases "a = SET_LOADING ent True")
    case True
    have "loading_of ent (loadingStates (dispatchAll (nanoDataReducer st a) acts))"
      using Cons.prems(1) reducer_sets_loading [of ent st] True
      by (intro dispatchAll_keeps_loading) auto
    then show ?thesis by (simp add: dispatchAll_def)
  next
    case False
    with Cons.prems have "SET_LOADING ent True \<in> set acts" by auto
    with Cons.IH [of "nanoDataReducer st a"] Cons.prems(1) show ?thesis
      by (simp add: dispatchAll_def)
  qed
qed

lemma run_keeps_loading:
  assumes "loading_of ent (loadingStates (fst sb))"
  shows "loading_of ent (loadingStates (fst (run svc x sb)))"
proof -
  obtain r acts b' where c: "call svc x (snd sb) = (r, acts, b')"
    by (cases "call svc x (snd sb)") auto
  then have "\<forall>a\<in>set acts. \<forall>e. a \<noteq> SET_LOADING e False"
    using call_no_reset [of _ svc x "snd sb"] by auto
  with assms have "loading_of ent (loadingStates (dispatchAll (fst sb) acts))"
    by (intro dispatchAll_keeps_loading)
  with c show ?thesis by (simp add: run_def)
qed

lemma run_all_keeps_loading:
  assumes "loading_of ent (loadingStates (fst sb))"
  shows "loading_of ent (loadingStates (fst (run_all svc xs sb)))"
  using assms unfolding run_all_def
proof (induction xs arbitrary: sb)
  case Nil
  then show ?case by simp
next
  case (Cons x xs)
  then show ?case by (simp add: run_keeps_loading)
qed

lemma refresh_sets_loading:
  assumes "SET_LOADING ent True \<in> set (fst (refreshData svc b))"
  shows "loading_of ent (loadingStates (fst (run svc RefreshData (st, b))))"
proof -
  obtain acts b' where r: "refreshData svc b = (acts, b')"
    by (cases "refreshData svc b") auto
  then have "\<forall>a\<in>set acts. \<forall>e. a \<noteq> SET_LOADING e False"
    using refreshData_no_reset [of _ svc b] by auto
  with assms r have "loading_of ent (loadingStates (dispatchAll st acts))"
    by (intro dispatchAll_sets_loading) auto
  with r show ?thesis by (simp add: run_def)
qed

lemma refresh_users_flag: "SET_LOADING EUsers True \<in> set (fst (refreshData svc b))"
  by (auto simp: refreshData_def split: prod.splits sum.splits)


lemma refresh_flags_reached:
  "(userService_getAllUsers svc b = (Inr us, b1) \<longrightarrow>
      SET_LOADING ESalaries True \<in> set (fst (refreshData svc b))) \<and>
   (userService_getAllUsers svc b = (Inr us, b1) \<and>
    SalaryService_getAll (salaries_client svc) b1 = (Inr ss, b2) \<longrightarrow>
      SET_LOADING EOvertimes True \<in> set (fst (refreshData svc b))) \<and>
   (userService_getAllUsers svc b = (Inr us, b1) \<and>
    SalaryService_getAll (salaries_client svc) b1 = (Inr ss, b2) \<and>
    OvertimeService_getAll (overtimes_client svc) b2 = (Inr os, b3) \<longrightarrow>
      SET_LOADING ELeaves True \<in> set (fst (refreshData svc b)))"
  by (auto simp: refreshData_def SalaryService_getAllSalaries_def OvertimeService_getAllOvertimes_def
      split: prod.splits sum.splits)

text \<open>
  C10. No operation of the store dispatches SET_LOADING with false, so a loading flag
  that is true stays true through any sequence of operations. refreshData dispatches
  SET_LOADING true for users, and for each further entity as soon as the fetches before
  it have succeeded; every flag it has set is true when it ends, whether it ended in
  success or in its catch block, and after any operations that follow.
\<close>

theorem C10_loading_flags_stay_true:
  "SET_LOADING ent False \<notin> set (fst (snd (call svc x b))) \<and>
   (loading_of ent (loadingStates st) \<longrightarrow>
      loading_of ent (loadingStates (fst (run_all svc xs (st, b))))) \<and>
   SET_LOADING EUsers True \<in> set (fst (refreshData svc b)) \<and>
   ((userService_getAllUsers svc b = (Inr us, b1) \<longrightarrow>
       SET_LOADING ESalaries True \<in> set (fst (refreshData svc b))) \<and>
    (userService_getAllUsers svc b = (Inr us, b1) \<and>
     SalaryService_getAll (salaries_client svc) b1 = (Inr ss, b2) \<longrightarrow>
       SET_LOADING EOvertimes True \<in> set (fst (refreshData svc b))) \<and>
    (userService_getAllUsers svc b = (Inr us, b1) \<and>
     SalaryService_getAll (salaries_client svc) b1 = (Inr ss, b2) \<and>
     OvertimeService_getAll (overtimes_client svc) b2 = (Inr os, b3) \<longrightarrow>
       SET_LOADING ELeaves True \<in> set (fst (refreshData svc b)))) \<and>
   (SET_LOADING ent True \<in> set (fst (refreshData svc b)) \<longrightarrow>
      loading_of ent (loadingStates (fst (run svc RefreshData (st, b)))) \<and>
      loading_of ent (loadingStates (fst (run_all svc xs (run svc RefreshData (st, b))))))"
proof -
  have n: "SET_LOADING ent False \<notin> set (fst (snd (call svc x b)))"
    using call_no_reset [of "SET_LOADING ent False" svc x b ent] by blast
  have k: "loading_of ent (loadingStates st) \<longrightarrow>
      loading_of ent (loadingStates (fst (run_all svc xs (st, b))))"
    using run_all_keeps_loading [of ent "(st, b)" svc xs] by simp
  have r: "SET_LOADING ent True \<in> set (fst (refreshData svc b)) \<longrightarrow>
      loading_of ent (loadingStates (fst (run svc RefreshData (st, b)))) \<and>
      loading_of ent (loadingStates (fst (run_all svc xs (run svc RefreshData (st, b)))))"
    using refresh_sets_loading [of ent svc b st]
      run_all_keeps_loading [of ent "run svc RefreshData (st, b)" svc xs] by simp
  show ?thesis
    by (rule conjI [OF n conjI [OF k conjI [OF refresh_users_flag conjI [OF refresh_flags_reached r]]]])
qed

theorem C10_loading_flags_stay_true_witness:
  "SET_LOADING ESalaries False \<notin> set (fst (snd (call (services_up_to 1) RefreshData 0))) \<and>
   loading_of ESalaries (loadingStates (dispatchAll initialState [SET_LOADING ESalaries True])) \<and>
   loading_of ESalaries (loadingStates (fst (run_all (services_up_to 1)
      [ClearErrors, DeleteSalary ''salary-1'', RefreshData]
      (dispatchAll initialState [SET_LOADING ESalaries True], 0)))) \<and>
   userService_getAllUsers (services_up_to 1) 0 = (Inr [toUser demo_user_row], 1) \<and>
   fst (SalaryService_getAll (salaries_client (services_up_to 1)) 1) = Inl (Backend demo_error) \<and>
   SET_LOADING ESalaries True \<in> set (fst (refreshData (services_up_to 1) 0)) \<and>
   loading_of ESalaries (loadingStates (fst (run (services_up_to 1) RefreshData (initialState, 0)))) \<and>
   loading_of ESalaries (loadingStates (fst (run_all (services_up_to 1)
      [ClearErrors, DeleteSalary ''salary-1'', RefreshData]
      (run (services_up_to 1) RefreshData (initialState, 0)))))"
proof -
  note inst = C10_loading_flags_stay_true [where svc = "services_up_to 1" and b = 0 and ent = ESalaries
      and x = RefreshData and xs = "[ClearErrors, DeleteSalary ''salary-1'', RefreshData]"
      and us = "[toUser demo_user_row]" and ?b1.0 = 1]
  have f: "loading_of ESalaries (loadingStates (dispatchAll initialState [SET_LOADING ESalaries True]))"
    by (simp add: dispatchAll_def)
  have u: "userService_getAllUsers (services_up_to 1) 0 = (Inr [toUser demo_user_row], 1)"
    by (simp add: services_up_to_def)
  have s: "fst (SalaryService_getAll (salaries_client (services_up_to 1)) 1) = Inl (Backend demo_error)"
    by (simp add: services_up_to_def failing_client_def SalaryService_getAll_def)
  note c1 = inst [THEN conjunct1]
  note c2 = inst [where st = "dispatchAll initialState [SET_LOADING ESalaries True]",
      THEN conjunct2, THEN conjunct1, THEN mp, OF f]
  note c4 = inst [THEN conjunct2, THEN conjunct2, THEN conjunct2, THEN conjunct1, THEN conjunct1,
      THEN mp, OF u]
  note c5 = inst [where st = initialState, THEN conjunct2, THEN conjunct2, THEN conjunct2, THEN conjunct2,
      THEN mp, OF c4]
  from c1 f c2 u s c4 c5 [THEN conjunct1] c5 [THEN conjunct2] show ?thesis by (intro conjI)
qed

subsection \<open>A status update writes the status only\<close>

lemma overtime_status_patch: "overtime_updateData (overtime_only_status s) = overtime_statusData s"
  by (cases s)
     (simp_all add: overtime_updateData_def overtime_only_status_def overtime_statusData_def
        guard_str_def guard_num_def guard_status_def truthy_str_def)

lemma leave_status_patch: "leave_updateData (leave_only_status s) = leave_statusData s"
  by (cases s)
     (simp_all add: leave_updateData_def leave_only_status_def leave_statusData_def
        guard_str_def guard_num_def guard_status_def truthy_str_def)

lemma overtime_update_is_updateStatus:
  "OvertimeService_update c i (overtime_only_status s) b = OvertimeService_updateStatus c i s b"
  by (cases c) (simp_all add: OvertimeService_update_def OvertimeService_updateStatus_def overtime_status_patch)

lemma leave_update_is_updateStatus:
  "LeaveService_update c i (leave_only_status s) b = LeaveService_updateStatus c i s b"
  by (cases c) (simp_all add: LeaveService_update_def LeaveService_updateStatus_def leave_status_patch)

lemma overtime_status_row: "apply_overtime_patch (overtime_statusData s) r = r\<lparr>or_status := s\<rparr>"
  by (simp add: apply_overtime_patch_def overtime_statusData_def)

lemma leave_status_row: "apply_leave_patch (leave_statusData s) r = r\<lparr>lr_status := s\<rparr>"
  by (simp add: apply_leave_patch_def leave_statusData_def)

lemma snd_single: "snd (single rows w) = w"
  by (simp add: single_def ok_def refused_def split: list.splits)

lemma snd_overtime_updateStatus:
  "snd (OvertimeService_updateStatus (Some c) i s b) = snd (update_single c (overtime_statusData s) i b)"
  by (auto simp: OvertimeService_updateStatus_def split: prod.splits option.splits)

lemma snd_leave_updateStatus:
  "snd (LeaveService_updateStatus (Some c) i s b) = snd (update_single c (leave_statusData s) i b)"
  by (auto simp: LeaveService_updateStatus_def split: prod.splits option.splits)

lemma overtime_updateStatus_world:
  "snd (OvertimeService_updateStatus (Some pg_overtimes) i s w) =
     (if fault w = None
      then w\<lparr>tbl_overtimes := map (\<lambda>r. if or_id r = i then r\<lparr>or_status := s\<rparr> else r) (tbl_overtimes w)\<rparr>
      else w)"
proof (cases "fault w")
  case None
  then have "snd (update_single pg_overtimes (overtime_statusData s) i w) =
      w\<lparr>tbl_overtimes := map (\<lambda>r. if or_id r = i then r\<lparr>or_status := s\<rparr> else r) (tbl_overtimes w)\<rparr>"
    by (simp add: pg_overtimes_def snd_single overtime_status_row)
  with None show ?thesis
    by (simp add: snd_overtime_updateStatus)
next
  case (Some e)
  then have "snd (update_single pg_overtimes (overtime_statusData s) i w) = w"
    by (simp add: pg_overtimes_def refused_def)
  with Some show ?thesis
    by (simp add: snd_overtime_updateStatus)
qed

lemma leave_updateStatus_world:
  "snd (LeaveService_updateStatus (Some pg_leaves) i s w) =
     (if fault w = None
      then w\<lparr>tbl_leaves := map (\<lambda>r. if lr_id r = i then r\<lparr>lr_status := s\<rparr> else r) (tbl_leaves w)\<rparr>
      else w)"
proof (cases "fault w")
  case None
  then have "snd (update_single pg_leaves (leave_statusData s) i w) =
      w\<lparr>tbl_leaves := map (\<lambda>r. if lr_id r = i then r\<lparr>lr_status := s\<rparr> else r) (tbl_leaves w)\<rparr>"
    by (simp add: pg_leaves_def snd_single leave_status_row)
  with None show ?thesis
    by (simp add: snd_leave_updateStatus)
next
  case (Some e)
  then have "snd (update_single pg_leaves (leave_statusData s) i w) = w"
    by (simp add: pg_leaves_def refused_def)
  with Some show ?thesis
    by (simp add: snd_leave_updateStatus)
qed


text \<open>
  C3. For every status value and every id: the write set that update(id, {status}) of the
  Overtime and Leave services sends has the status entry and no other, so the call is the
  same as updateStatus(id, status), whatever the client; and on the
  reference backend it leaves every table as it was, except that in its own table the
  stored rows with that id have their status column set to the given status, all their
  other columns and all other rows unchanged (and nothing changes if the backend
  refuses the query).
\<close>

theorem C3_status_update_frame:
  "overtime_updateData (overtime_only_status s)
     = \<lparr>op_date = None, op_hours = None, op_reason = None, op_status = Some s\<rparr> \<and>
   leave_updateData (leave_only_status s)
     = \<lparr>lp_start_date = None, lp_end_date = None, lp_type = None, lp_status = Some s\<rparr> \<and>
   OvertimeService_update c i (overtime_only_status s) b = OvertimeService_updateStatus c i s b \<and>
   LeaveService_update c' i (leave_only_status s) b' = LeaveService_updateStatus c' i s b' \<and>
   snd (OvertimeService_updateStatus (Some pg_overtimes) i s w) =
     (if fault w = None
      then w\<lparr>tbl_overtimes := map (\<lambda>r. if or_id r = i then r\<lparr>or_status := s\<rparr> else r) (tbl_overtimes w)\<rparr>
      else w) \<and>
   snd (LeaveService_updateStatus (Some pg_leaves) i s w) =
     (if fault w = None
      then w\<lparr>tbl_leaves := map (\<lambda>r. if lr_id r = i then r\<lparr>lr_status := s\<rparr> else r) (tbl_leaves w)\<rparr>
      else w)"
  by (rule conjI [OF overtime_status_patch [unfolded overtime_statusData_def]
        conjI [OF leave_status_patch [unfolded leave_statusData_def]
        conjI [OF overtime_update_is_updateStatus conjI [OF leave_update_is_updateStatus
        conjI [OF overtime_updateStatus_world leave_updateStatus_world]]]]])

theorem C3_status_update_frame_witness:
  "snd (OvertimeService_update (Some pg_overtimes) ''overtime-1'' (overtime_only_status Approved) demo_world)
     = demo_world\<lparr>tbl_overtimes := [demo_overtime_row\<lparr>or_status := Approved\<rparr>]\<rparr> \<and>
   snd (OvertimeService_updateStatus (Some pg_overtimes) ''overtime-1'' Approved demo_world)
     = demo_world\<lparr>tbl_overtimes := [demo_overtime_row\<lparr>or_status := Approved\<rparr>]\<rparr> \<and>
   snd (LeaveService_update (Some pg_leaves) ''leave-1'' (leave_only_status Rejected) demo_world)
     = demo_world\<lparr>tbl_leaves := [demo_leave_row\<lparr>lr_status := Rejected\<rparr>]\<rparr> \<and>
   snd (LeaveService_updateStatus (Some pg_leaves) ''leave-1'' Rejected demo_world)
     = demo_world\<lparr>tbl_leaves := [demo_leave_row\<lparr>lr_status := Rejected\<rparr>]\<rparr>"
proof -
  note o = C3_status_update_frame [where c = "Some pg_overtimes" and b = demo_world
      and i = "''overtime-1''" and s = Approved and w = demo_world]
  note l = C3_status_update_frame [where c' = "Some pg_leaves" and b' = demo_world
      and i = "''leave-1''" and s = Rejected and w = demo_world]
  have f: "fault demo_world = None" by (simp add: demo_world_def)
  have o2: "snd (OvertimeService_updateStatus (Some pg_overtimes) ''overtime-1'' Approved demo_world)
     = demo_world\<lparr>tbl_overtimes := [demo_overtime_row\<lparr>or_status := Approved\<rparr>]\<rparr>"
    using o [THEN conjunct2, THEN conjunct2, THEN conjunct2, THEN conjunct2, THEN conjunct1] f
    by (simp add: demo_world_def demo_overtime_row_def)
  have l2: "snd (LeaveService_updateStatus (Some pg_leaves) ''leave-1'' Rejected demo_world)
     = demo_world\<lparr>tbl_leaves := [demo_leave_row\<lparr>lr_status := Rejected\<rparr>]\<rparr>"
    using l [THEN conjunct2, THEN conjunct2, THEN conjunct2, THEN conjunct2, THEN conjunct2] f
    by (simp add: demo_world_def demo_leave_row_def)
  from o [THEN conjunct2, THEN conjunct2, THEN conjunct1] o2
    l [THEN conjunct2, THEN conjunct2, THEN conjunct2, THEN conjunct1] l2
  show ?thesis by simp
qed

subsection \<open>Falsy fields of an update are not written\<close>

lemma guard_num_falsy: "supplied_falsy_num x \<Longrightarrow> guard_num x = None"
  by (auto simp: supplied_falsy_num_def guard_num_def split: option.splits)

lemma guard_str_falsy: "supplied_falsy_str x \<Longrightarrow> guard_str x = None"
  by (auto simp: supplied_falsy_str_def guard_str_def split: option.splits)

lemma salary_write_set:
  "(supplied_falsy_num (su_baseSalary u) \<longrightarrow> sp_base_salary (salary_updateData pI now u) = None) \<and>
   (supplied_falsy_num (su_overtimePay u) \<longrightarrow> sp_overtime_pay (salary_updateData pI now u) = None) \<and>
   (supplied_falsy_str (su_paymentDate u) \<longrightarrow> sp_payment_date (salary_updateData pI now u) = None) \<and>
   (supplied_falsy_str (su_month u) \<longrightarrow> sp_month (salary_updateData pI now u) = None) \<and>
   (supplied_falsy_str (su_year u) \<longrightarrow> sp_year (salary_updateData pI now u) = None)"
  by (simp add: salary_updateData_def guard_num_falsy guard_str_falsy)

lemma overtime_write_set:
  "(supplied_falsy_str (ou_date u) \<longrightarrow> op_date (overtime_updateData u) = None) \<and>
   (supplied_falsy_num (ou_hours u) \<longrightarrow> op_hours (overtime_updateData u) = None) \<and>
   (supplied_falsy_str (ou_description u) \<longrightarrow> op_reason (overtime_updateData u) = None)"
  by (simp add: overtime_updateData_def guard_num_falsy guard_str_falsy)

lemma leave_write_set:
  "(supplied_falsy_str (lu_startDate u) \<longrightarrow> lp_start_date (leave_updateData u) = None) \<and>
   (supplied_falsy_str (lu_endDate u) \<longrightarrow> lp_end_date (leave_updateData u) = None) \<and>
   (supplied_falsy_str (lu_type u) \<longrightarrow> lp_type (leave_updateData u) = None)"
  by (simp add: leave_updateData_def guard_str_falsy)

lemma user_write_set:
  "(supplied_falsy_str (uu_name u) \<longrightarrow> up_name (user_updateData now u) = None) \<and>
   (supplied_falsy_str (uu_email u) \<longrightarrow> up_email (user_updateData now u) = None) \<and>
   (supplied_falsy_str (uu_employeeType u) \<longrightarrow> up_employee_type (user_updateData now u) = None) \<and>
   (supplied_falsy_str (uu_startDate u) \<longrightarrow> up_start_date (user_updateData now u) = None)"
  by (simp add: user_updateData_def guard_str_falsy)

lemma snd_salary_update:
  "snd (SalaryService_update (Some c) pI now i u b) = snd (update_single c (salary_updateData pI now u) i b)"
  by (auto simp: SalaryService_update_def split: prod.splits option.splits)

lemma snd_overtime_update:
  "snd (OvertimeService_update (Some c) i u b) = snd (update_single c (overtime_updateData u) i b)"
  by (auto simp: OvertimeService_update_def split: prod.splits option.splits)

lemma pg_salaries_base_kept:
  assumes "sp_base_salary p = None"
  shows "map sr_base_salary (tbl_salaries (snd (update_single (pg_salaries ai) p i w)))
           = map sr_base_salary (tbl_salaries w)"
  using assms
  by (cases "fault w")
     (auto simp: pg_salaries_def refused_def snd_single apply_salary_patch_def o_def)

lemma pg_salaries_overtime_kept:
  assumes "sp_overtime_pay p = None"
  shows "map sr_overtime_pay (tbl_salaries (snd (update_single (pg_salaries ai) p i w)))
           = map sr_overtime_pay (tbl_salaries w)"
  using assms
  by (cases "fault w")
     (auto simp: pg_salaries_def refused_def snd_single apply_salary_patch_def o_def)

lemma pg_overtimes_hours_kept:
  assumes "op_hours p = None"
  shows "map or_hours (tbl_overtimes (snd (update_single pg_overtimes p i w)))
           = map or_hours (tbl_overtimes w)"
  using assms
  by (cases "fault w")
     (auto simp: pg_overtimes_def refused_def snd_single apply_overtime_patch_def o_def)

lemma pg_overtimes_reason_kept:
  assumes "op_reason p = None"
  shows "map or_reason (tbl_overtimes (snd (update_single pg_overtimes p i w)))
           = map or_reason (tbl_overtimes w)"
  using assms
  by (cases "fault w")
     (auto simp: pg_overtimes_def refused_def snd_single apply_overtime_patch_def o_def)

lemma stored_values_kept:
  "(supplied_falsy_num (su_baseSalary us) \<longrightarrow>
      map sr_base_salary (tbl_salaries (snd (SalaryService_update (Some (pg_salaries ai)) pI now i us w)))
        = map sr_base_salary (tbl_salaries w)) \<and>
   (supplied_falsy_num (su_overtimePay us) \<longrightarrow>
      map sr_overtime_pay (tbl_salaries (snd (SalaryService_update (Some (pg_salaries ai)) pI now i us w)))
        = map sr_overtime_pay (tbl_salaries w)) \<and>
   (supplied_falsy_num (ou_hours uo) \<longrightarrow>
      map or_hours (tbl_overtimes (snd (OvertimeService_update (Some pg_overtimes) i uo w)))
        = map or_hours (tbl_overtimes w)) \<and>
   (supplied_falsy_str (ou_description uo) \<longrightarrow>
      map or_reason (tbl_overtimes (snd (OvertimeService_update (Some pg_overtimes) i uo w)))
        = map or_reason (tbl_overtimes w))"
  using salary_write_set [of us pI now] overtime_write_set [of uo]
  by (simp add: snd_salary_update snd_overtime_update pg_salaries_base_kept pg_salaries_overtime_kept
      pg_overtimes_hours_kept pg_overtimes_reason_kept)

text \<open>
  C9. In the update function of each of the four services, a guarded field that is
  supplied with a falsy value (the number 0, the empty string) gets no entry in the
  write set sent to the backend. On the reference backend an update with baseSalary 0,
  overtimePay 0, hours 0 or description '' therefore leaves the stored base_salary,
  overtime_pay, hours or reason of every row as it was.
\<close>

theorem C9_falsy_fields_dropped:
  "((supplied_falsy_num (su_baseSalary us) \<longrightarrow> sp_base_salary (salary_updateData pI now us) = None) \<and>
    (supplied_falsy_num (su_overtimePay us) \<longrightarrow> sp_overtime_pay (salary_updateData pI now us) = None) \<and>
    (supplied_falsy_str (su_paymentDate us) \<longrightarrow> sp_payment_date (salary_updateData pI now us) = None) \<and>
    (supplied_falsy_str (su_month us) \<longrightarrow> sp_month (salary_updateData pI now us) = None) \<and>
    (supplied_falsy_str (su_year us) \<longrightarrow> sp_year (salary_updateData pI now us) = None)) \<and>
   ((supplied_falsy_str (ou_date uo) \<longrightarrow> op_date (overtime_updateData uo) = None) \<and>
    (supplied_falsy_num (ou_hours uo) \<longrightarrow> op_hours (overtime_updateData uo) = None) \<and>
    (supplied_falsy_str (ou_description uo) \<longrightarrow> op_reason (overtime_updateData uo) = None)) \<and>
   ((supplied_falsy_str (lu_startDate ul) \<longrightarrow> lp_start_date (leave_updateData ul) = None) \<and>
    (supplied_falsy_str (lu_endDate ul) \<longrightarrow> lp_end_date (leave_updateData ul) = None) \<and>
    (supplied_falsy_str (lu_type ul) \<longrightarrow> lp_type (leave_updateData ul) = None)) \<and>
   ((supplied_falsy_str (uu_name uu) \<longrightarrow> up_name (user_updateData now uu) = None) \<and>
    (supplied_falsy_str (uu_email uu) \<longrightarrow> up_email (user_updateData now uu) = None) \<and>
    (supplied_falsy_str (uu_employeeType uu) \<longrightarrow> up_employee_type (user_updateData now uu) = None) \<and>
    (supplied_falsy_str (uu_startDate uu) \<longrightarrow> up_start_date (user_updateData now uu) = None)) \<and>
   ((supplied_falsy_num (su_baseSalary us) \<longrightarrow>
       map sr_base_salary (tbl_salaries (snd (SalaryService_update (Some (pg_salaries ai)) pI now i us w)))
         = map sr_base_salary (tbl_salaries w)) \<and>
    (supplied_falsy_num (su_overtimePay us) \<longrightarrow>
       map sr_overtime_pay (tbl_salaries (snd (SalaryService_update (Some (pg_salaries ai)) pI now i us w)))
         = map sr_overtime_pay (tbl_salaries w)) \<and>
    (supplied_falsy_num (ou_hours uo) \<longrightarrow>
       map or_hours (tbl_overtimes (snd (OvertimeService_update (Some pg_overtimes) i uo w)))
         = map or_hours (tbl_overtimes w)) \<and>
    (supplied_falsy_str (ou_description uo) \<longrightarrow>
       map or_reason (tbl_overtimes (snd (OvertimeService_update (Some pg_overtimes) i uo w)))
         = map or_reason (tbl_overtimes w)))"
  by (rule conjI [OF salary_write_set conjI [OF overtime_write_set conjI [OF leave_write_set
        conjI [OF user_write_set stored_values_kept]]]])

theorem C9_falsy_fields_dropped_witness:
  "supplied_falsy_num (su_baseSalary demo_salary_updates) \<and>
   supplied_falsy_num (su_overtimePay demo_salary_updates) \<and>
   supplied_falsy_str (su_paymentDate demo_salary_updates) \<and>
   supplied_falsy_str (su_month demo_salary_updates) \<and>
   supplied_falsy_str (su_year demo_salary_updates) \<and>
   supplied_falsy_str (ou_date demo_overtime_updates) \<and>
   supplied_falsy_num (ou_hours demo_overtime_updates) \<and>
   supplied_falsy_str (ou_description demo_overtime_updates) \<and>
   supplied_falsy_str (lu_startDate demo_leave_updates) \<and>
   supplied_falsy_str (lu_endDate demo_leave_updates) \<and>
   supplied_falsy_str (lu_type demo_leave_updates) \<and>
   supplied_falsy_str (uu_name demo_user_updates) \<and>
   supplied_falsy_str (uu_email demo_user_updates) \<and>
   supplied_falsy_str (uu_employeeType demo_user_updates) \<and>
   supplied_falsy_str (uu_startDate demo_user_updates) \<and>
   sp_base_salary (salary_updateData demo_parseInt 9 demo_salary_updates) = None \<and>
   sp_overtime_pay (salary_updateData demo_parseInt 9 demo_salary_updates) = None \<and>
   sp_payment_date (salary_updateData demo_parseInt 9 demo_salary_updates) = None \<and>
   sp_month (salary_updateData demo_parseInt 9 demo_salary_updates) = None \<and>
   sp_year (salary_updateData demo_parseInt 9 demo_salary_updates) = None \<and>
   op_date (overtime_updateData demo_overtime_updates) = None \<and>
   op_hours (overtime_updateData demo_overtime_updates) = None \<and>
   op_reason (overtime_updateData demo_overtime_updates) = None \<and>
   lp_start_date (leave_updateData demo_leave_updates) = None \<and>
   lp_end_date (leave_updateData demo_leave_updates) = None \<and>
   lp_type (leave_updateData demo_leave_updates) = None \<and>
   up_name (user_updateData 9 demo_user_updates) = None \<and>
   up_email (user_updateData 9 demo_user_updates) = None \<and>
   up_employee_type (user_updateData 9 demo_user_updates) = None \<and>
   up_start_date (user_updateData 9 demo_user_updates) = None \<and>
   map sr_base_salary (tbl_salaries (snd (SalaryService_update (Some (pg_salaries demo_as_int)) demo_parseInt 9
      ''salary-1'' demo_salary_updates demo_world)))
     = [25000] \<and>
   map sr_overtime_pay (tbl_salaries (snd (SalaryService_update (Some (pg_salaries demo_as_int)) demo_parseInt 9
      ''salary-1'' demo_salary_updates demo_world)))
     = [Some 2000] \<and>
   map or_hours (tbl_overtimes (snd (OvertimeService_update (Some pg_overtimes) ''overtime-1''
      demo_overtime_updates demo_world)))
     = [8] \<and>
   map or_reason (tbl_overtimes (snd (OvertimeService_update (Some pg_overtimes) ''overtime-1''
      demo_overtime_updates demo_world)))
     = [Some ''Proje teslimi'']"
proof -
  have h1: "supplied_falsy_num (su_baseSalary demo_salary_updates)"
    by (simp add: supplied_falsy_num_def supplied_falsy_str_def truthy_num_def truthy_str_def
        demo_salary_updates_def demo_overtime_updates_def demo_leave_updates_def demo_user_updates_def)
  have h2: "supplied_falsy_num (su_overtimePay demo_salary_updates)"
    by (simp add: supplied_falsy_num_def supplied_falsy_str_def truthy_num_def truthy_str_def
        demo_salary_updates_def demo_overtime_updates_def demo_leave_updates_def demo_user_updates_def)
  have h3: "supplied_falsy_str (su_paymentDate demo_salary_updates)"
    by (simp add: supplied_falsy_num_def supplied_falsy_str_def truthy_num_def truthy_str_def
        demo_salary_updates_def demo_overtime_updates_def demo_leave_updates_def demo_user_updates_def)
  have h4: "supplied_falsy_str (su_month demo_salary_updates)"
    by (simp add: supplied_falsy_num_def supplied_falsy_str_def truthy_num_def truthy_str_def
        demo_salary_updates_def demo_overtime_updates_def demo_leave_updates_def demo_user_updates_def)
  have h5: "supplied_falsy_str (su_year demo_salary_updates)"
    by (simp add: supplied_falsy_num_def supplied_falsy_str_def truthy_num_def truthy_str_def
        demo_salary_updates_def demo_overtime_updates_def demo_leave_updates_def demo_user_updates_def)
  have h6: "supplied_falsy_str (ou_date demo_overtime_updates)"
    by (simp add: supplied_falsy_num_def supplied_falsy_str_def truthy_num_def truthy_str_def
        demo_salary_updates_def demo_overtime_updates_def demo_leave_updates_def demo_user_updates_def)
  have h7: "supplied_falsy_num (ou_hours demo_overtime_updates)"
    by (simp add: supplied_falsy_num_def supplied_falsy_str_def truthy_num_def truthy_str_def
        demo_salary_updates_def demo_overtime_updates_def demo_leave_updates_def demo_user_updates_def)
  have h8: "supplied_falsy_str (ou_description demo_overtime_updates)"
    by (simp add: supplied_falsy_num_def supplied_falsy_str_def truthy_num_def truthy_str_def
        demo_salary_updates_def demo_overtime_updates_def demo_leave_updates_def demo_user_updates_def)
  have h9: "supplied_falsy_str (lu_startDate demo_leave_updates)"
    by (simp add: supplied_falsy_num_def supplied_falsy_str_def truthy_num_def truthy_str_def
        demo_salary_updates_def demo_overtime_updates_def demo_leave_updates_def demo_user_updates_def)
  have h10: "supplied_falsy_str (lu_endDate demo_leave_updates)"
    by (simp add: supplied_falsy_num_def supplied_falsy_str_def truthy_num_def truthy_str_def
        demo_salary_updates_def demo_overtime_updates_def demo_leave_updates_def demo_user_updates_def)
  have h11: "supplied_falsy_str (lu_type demo_leave_updates)"
    by (simp add: supplied_falsy_num_def supplied_falsy_str_def truthy_num_def truthy_str_def
        demo_salary_updates_def demo_overtime_updates_def demo_leave_updates_def demo_user_updates_def)
  have h12: "supplied_falsy_str (uu_name demo_user_updates)"
    by (simp add: supplied_falsy_num_def supplied_falsy_str_def truthy_num_def truthy_str_def
        demo_salary_updates_def demo_overtime_updates_def demo_leave_updates_def demo_user_updates_def)
  have h13: "supplied_falsy_str (uu_email demo_user_updates)"
    by (simp add: supplied_falsy_num_def supplied_falsy_str_def truthy_num_def truthy_str_def
        demo_salary_updates_def demo_overtime_updates_def demo_leave_updates_def demo_user_updates_def)
  have h14: "supplied_falsy_str (uu_employeeType demo_user_updates)"
    by (simp add: supplied_falsy_num_def supplied_falsy_str_def truthy_num_def truthy_str_def
        demo_salary_updates_def demo_overtime_updates_def demo_leave_updates_def demo_user_updates_def)
  have h15: "supplied_falsy_str (uu_startDate demo_user_updates)"
    by (simp add: supplied_falsy_num_def supplied_falsy_str_def truthy_num_def truthy_str_def
        demo_salary_updates_def demo_overtime_updates_def demo_leave_updates_def demo_user_updates_def)
  note a = C9_falsy_fields_dropped [where us = demo_salary_updates and uo = demo_overtime_updates
      and ul = demo_leave_updates and uu = demo_user_updates and pI = demo_parseInt and now = 9
      and ai = demo_as_int and i = "''salary-1''" and w = demo_world]
  note b = C9_falsy_fields_dropped [where us = demo_salary_updates and uo = demo_overtime_updates
      and ul = demo_leave_updates and uu = demo_user_updates and pI = demo_parseInt and now = 9
      and ai = demo_as_int and i = "''overtime-1''" and w = demo_world]
  note c1 = a [THEN conjunct1, THEN conjunct1, THEN mp, OF h1]
  note c2 = a [THEN conjunct1, THEN conjunct2, THEN conjunct1, THEN mp, OF h2]
  note c3 = a [THEN conjunct1, THEN conjunct2, THEN conjunct2, THEN conjunct1, THEN mp, OF h3]
  note c4 = a [THEN conjunct1, THEN conjunct2, THEN conjunct2, THEN conjunct2, THEN conjunct1, THEN mp, OF h4]
  note c5 = a [THEN conjunct1, THEN conjunct2, THEN conjunct2, THEN conjunct2, THEN conjunct2, THEN mp, OF h5]
  note c6 = a [THEN conjunct2, THEN conjunct1, THEN conjunct1, THEN mp, OF h6]
  note c7 = a [THEN conjunct2, THEN conjunct1, THEN conjunct2, THEN conjunct1, THEN mp, OF h7]
  note c8 = a [THEN conjunct2, THEN conjunct1, THEN conjunct2, THEN conjunct2, THEN mp, OF h8]
  note c9 = a [THEN conjunct2, THEN conjunct2, THEN conjunct1, THEN conjunct1, THEN mp, OF h9]
  note c10 = a [THEN conjunct2, THEN conjunct2, THEN conjunct1, THEN conjunct2, THEN conjunct1, THEN mp, OF h10]
  note c11 = a [THEN conjunct2, THEN conjunct2, THEN conjunct1, THEN conjunct2, THEN conjunct2, THEN mp, OF h11]
  note c12 = a [THEN conjunct2, THEN conjunct2, THEN conjunct2, THEN conjunct1, THEN conjunct1, THEN mp, OF h12]
  note c13 = a [THEN conjunct2, THEN conjunct2, THEN conjunct2, THEN conjunct1, THEN conjunct2, THEN conjunct1, THEN mp, OF h13]
  note c14 = a [THEN conjunct2, THEN conjunct2, THEN conjunct2, THEN conjunct1, THEN conjunct2, THEN conjunct2, THEN conjunct1, THEN mp, OF h14]
  note c15 = a [THEN conjunct2, THEN conjunct2, THEN conjunct2, THEN conjunct1, THEN conjunct2, THEN conjunct2, THEN conjunct2, THEN mp, OF h15]
  have d1: "map sr_base_salary (tbl_salaries (snd (SalaryService_update (Some (pg_salaries demo_as_int)) demo_parseInt 9
      ''salary-1'' demo_salary_updates demo_world)))
     = [25000]"
    using a [THEN conjunct2, THEN conjunct2, THEN conjunct2, THEN conjunct2, THEN conjunct1, THEN mp, OF h1]
    by (simp add: demo_world_def demo_salary_row_def demo_overtime_row_def)
  have d2: "map sr_overtime_pay (tbl_salaries (snd (SalaryService_update (Some (pg_salaries demo_as_int)) demo_parseInt 9
      ''salary-1'' demo_salary_updates demo_world)))
     = [Some 2000]"
    using a [THEN conjunct2, THEN conjunct2, THEN conjunct2, THEN conjunct2, THEN conjunct2, THEN conjunct1, THEN mp, OF h2]
    by (simp add: demo_world_def demo_salary_row_def demo_overtime_row_def)
  have d3: "map or_hours (tbl_overtimes (snd (OvertimeService_update (Some pg_overtimes) ''overtime-1''
      demo_overtime_updates demo_world)))
     = [8]"
    using b [THEN conjunct2, THEN conjunct2, THEN conjunct2, THEN conjunct2, THEN conjunct2, THEN conjunct2, THEN conjunct1, THEN mp, OF h7]
    by (simp add: demo_world_def demo_salary_row_def demo_overtime_row_def)
  have d4: "map or_reason (tbl_overtimes (snd (OvertimeService_update (Some pg_overtimes) ''overtime-1''
      demo_overtime_updates demo_world)))
     = [Some ''Proje teslimi'']"
    using b [THEN conjunct2, THEN conjunct2, THEN conjunct2, THEN conjunct2, THEN conjunct2, THEN conjunct2, THEN conjunct2, THEN mp, OF h8]
    by (simp add: demo_world_def demo_salary_row_def demo_overtime_row_def)
  from h1 h2 h3 h4 h5 h6 h7 h8 h9 h10 h11 h12 h13 h14 h15 c1 c2 c3 c4 c5 c6 c7 c8 c9 c10 c11 c12 c13 c14 c15 d1 d2 d3 d4
  show ?thesis by (intro conjI)
qed

subsection \<open>The local store adapter\<close>

lemma getStore_setStore:
  "getStore this storeName = Inr objs \<Longrightarrow> getStore (setStore this storeName objs') storeName = Inr objs'"
  by (auto simp: getStore_def setStore_def split: option.splits)

lemma find_insort_new:
  assumes "Some k \<notin> set (map keyOf objs)" and "keyOf ob = Some k"
  shows "find (\<lambda>x. keyOf x = Some k) (insort_key key_str ob objs) = Some ob"
  using assms by (induction objs) auto

lemma create_result:
  assumes "db_create this storeName ob = (Inr r, this')"
  shows "r = ob \<and> keyOf ob \<noteq> None"
  using assms
  by (auto simp: db_create_def split: sum.splits option.splits if_splits)

lemma create_then_get:
  assumes "db_create this storeName ob = (Inr r, this')" and "keyOf ob = Some k"
  shows "db_get this' storeName k = Inr (Some ob)"
proof -
  from assms obtain objs where g: "getStore this storeName = Inr objs"
    and n: "Some k \<notin> set (map keyOf objs)"
    and t: "this' = setStore this storeName (insort_key key_str ob objs)"
    by (auto simp: db_create_def split: sum.splits option.splits if_splits)
  from g t have "getStore this' storeName = Inr (insort_key key_str ob objs)"
    by (simp add: getStore_setStore)
  with n assms(2) show ?thesis
    by (simp add: db_get_def find_insort_new)
qed

text \<open>
  C5. For every store name and every object: when create(store, o) succeeds, it returns
  o, o has an id, and get(store, o.id) on the database it leaves returns exactly o.
\<close>

theorem C5_create_then_get_roundtrip:
  "(db_create this storeName ob = (Inr r, this') \<longrightarrow> r = ob \<and> keyOf ob \<noteq> None) \<and>
   (db_create this storeName ob = (Inr r, this') \<and> keyOf ob = Some k \<longrightarrow>
      db_get this' storeName k = Inr (Some ob))"
  using create_result [of this storeName ob r this'] create_then_get [of this storeName ob r this' k]
  by simp

lemma init_new_salaries: "getStore init_new ''salaries'' = Inr []"
  by (simp add: init_new_def onupgradeneeded_def createObjectStore_def getStore_def)

lemma demo_obj_key: "keyOf demo_obj = Some ''salary-1''"
  by (simp add: keyOf_def demo_obj_def)

lemma demo_obj2_key: "keyOf demo_obj2 = Some ''salary-0''"
  by (simp add: keyOf_def demo_obj2_def)

lemma demo_create:
  "db_create init_new ''salaries'' demo_obj = (Inr demo_obj, setStore init_new ''salaries'' [demo_obj])"
  by (simp add: db_create_def init_new_salaries demo_obj_key)

theorem C5_create_then_get_roundtrip_witness:
  "db_create init_new ''salaries'' demo_obj = (Inr demo_obj, setStore init_new ''salaries'' [demo_obj]) \<and>
   keyOf demo_obj = Some ''salary-1'' \<and>
   db_get (setStore init_new ''salaries'' [demo_obj]) ''salaries'' ''salary-1'' = Inr (Some demo_obj)"
proof -
  note inst = C5_create_then_get_roundtrip [where this = init_new and storeName = "''salaries''"
      and ob = demo_obj and r = demo_obj and this' = "setStore init_new ''salaries'' [demo_obj]"
      and k = "''salary-1''"]
  from inst [THEN conjunct2, THEN mp, OF conjI [OF demo_create demo_obj_key]] demo_create demo_obj_key
  show ?thesis by (intro conjI)
qed

lemma delete_then_getAll:
  assumes "db_delete this storeName i = (Inr u, this')"
  shows "\<exists>objs. db_getAll this storeName = Inr objs \<and>
           db_getAll this' storeName = Inr (filter (\<lambda>ob. keyOf ob \<noteq> Some i) objs)"
proof -
  from assms obtain objs where g: "getStore this storeName = Inr objs"
    and t: "this' = setStore this storeName (filter (\<lambda>ob. keyOf ob \<noteq> Some i) objs)"
    by (auto simp: db_delete_def split: sum.splits)
  from g t have "getStore this' storeName = Inr (filter (\<lambda>ob. keyOf ob \<noteq> Some i) objs)"
    by (simp add: getStore_setStore)
  with g show ?thesis by (simp add: db_getAll_def)
qed

text \<open>
  C6. For every store name and every id: when delete(store, id) succeeds, getAll(store)
  on the database it leaves returns the list that getAll returned before with the records
  of that id filtered out: no record with the deleted id, and every record with another
  id still there, in the same order.
\<close>

theorem C6_delete_then_getAll:
  "db_delete this storeName i = (Inr u, this') \<longrightarrow>
     (\<exists>objs. db_getAll this storeName = Inr objs \<and>
        db_getAll this' storeName = Inr (filter (\<lambda>ob. keyOf ob \<noteq> Some i) objs) \<and>
        Some i \<notin> set (map keyOf (filter (\<lambda>ob. keyOf ob \<noteq> Some i) objs)) \<and>
        set (filter (\<lambda>ob. keyOf ob \<noteq> Some i) objs) = {ob \<in> set objs. keyOf ob \<noteq> Some i})"
  using delete_then_getAll [of this storeName i u this'] by auto

lemma setStore_twice: "setStore (setStore this storeName a) storeName c = setStore this storeName c"
  by (cases this) (simp_all add: setStore_def)

lemma demo_db_eq: "demo_db = setStore init_new ''salaries'' [demo_obj2, demo_obj]"
proof -
  have k1: "key_str demo_obj = ''salary-1''" by (simp add: key_str_def demo_obj_key)
  have k2: "key_str demo_obj2 = ''salary-0''" by (simp add: key_str_def demo_obj2_key)
  have g: "getStore (setStore init_new ''salaries'' [demo_obj]) ''salaries'' = Inr [demo_obj]"
    using init_new_salaries by (rule getStore_setStore)
  have "db_create (setStore init_new ''salaries'' [demo_obj]) ''salaries'' demo_obj2
      = (Inr demo_obj2, setStore init_new ''salaries'' [demo_obj2, demo_obj])"
    by (simp add: db_create_def g demo_obj_key demo_obj2_key k1 k2 setStore_twice)
  then show ?thesis
    by (simp add: demo_db_def demo_create)
qed

lemma demo_db_getAll: "db_getAll demo_db ''salaries'' = Inr [demo_obj2, demo_obj]"
  using getStore_setStore [OF init_new_salaries, of "[demo_obj2, demo_obj]"]
  by (simp add: demo_db_eq db_getAll_def)

lemma demo_db_delete:
  "db_delete demo_db ''salaries'' ''salary-1'' = (Inr (), setStore demo_db ''salaries'' [demo_obj2])"
  using getStore_setStore [OF init_new_salaries, of "[demo_obj2, demo_obj]"]
  by (simp add: demo_db_eq db_delete_def demo_obj_key demo_obj2_key)

theorem C6_delete_then_getAll_witness:
  "db_getAll demo_db ''salaries'' = Inr [demo_obj2, demo_obj] \<and>
   db_delete demo_db ''salaries'' ''salary-1'' = (Inr (), setStore demo_db ''salaries'' [demo_obj2]) \<and>
   db_getAll (setStore demo_db ''salaries'' [demo_obj2]) ''salaries'' = Inr [demo_obj2]"
proof -
  note inst = C6_delete_then_getAll [where this = demo_db and storeName = "''salaries''"
      and i = "''salary-1''" and u = "()" and this' = "setStore demo_db ''salaries'' [demo_obj2]",
      THEN mp, OF demo_db_delete]
  then have "db_getAll (setStore demo_db ''salaries'' [demo_obj2]) ''salaries'' = Inr [demo_obj2]"
    by (auto simp: demo_db_getAll demo_obj_key demo_obj2_key)
  with demo_db_getAll demo_db_delete show ?thesis by (intro conjI)
qed

subsection \<open>Error classification\<close>

lemma mapSupabaseError_tabulated: "map_of errorMap c = Some t \<Longrightarrow> mapSupabaseError c = Type t"
  by (simp add: mapSupabaseError_def)

lemma mapSupabaseError_default:
  "map_of errorMap c = None \<Longrightarrow> c \<notin> set Object_prototype \<Longrightarrow> mapSupabaseError c = Type UNKNOWN"
  by (simp add: mapSupabaseError_def)

lemma mapSupabaseError_examples:
  "mapSupabaseError ''42501'' = Type AUTHORIZATION"
  "mapSupabaseError ''PGRST116'' = Type NOT_FOUND"
  "mapSupabaseError ''no-such-code'' = Type UNKNOWN"
  by (simp_all add: mapSupabaseError_def errorMap_def Object_prototype_def)

text \<open>
  C7. The code 'constructor' is not in the table, and mapSupabaseError does not return
  UNKNOWN for it: the lookup finds the member that every object literal inherits, and
  the function returns that member, which is no value of the taxonomy.
\<close>

theorem C7_inherited_member_returned:
  "map_of errorMap ''constructor'' = None \<and>
   mapSupabaseError ''constructor'' = Member_of_Object_prototype ''constructor'' \<and>
   mapSupabaseError ''constructor'' \<noteq> Type UNKNOWN"
  by (simp add: mapSupabaseError_def errorMap_def Object_prototype_def)

end
